theory Spec2Isabelle
  imports Complex_Main "HOL-Library.Sublist"
begin

section \<open>Numbers\<close>

text \<open>
  A Python or numpy float is a finite number, an infinity or NaN. Finite results are taken
  exactly: rounding and overflow are not modelled. The special values follow IEEE 754:
  NaN is absorbing, \<open>inf - inf\<close>, \<open>0 * inf\<close>, \<open>0 / 0\<close> and \<open>inf / inf\<close> are NaN, a non-zero
  number divided by zero is an infinity (numpy warns and goes on), and every comparison
  with NaN is false. The sign of a zero is not kept, so a price of negative zero is not
  modelled. Where an example below gives a finite number it is the exact value, of which
  the program holds the nearest double; what is stated of NaN and of the infinities does not
  depend on the rounding.
\<close>

datatype fl = Fin real | PInf | NInf | NaN

fun fl_neg :: "fl \<Rightarrow> fl" where
  "fl_neg (Fin x) = Fin (- x)"
| "fl_neg PInf = NInf"
| "fl_neg NInf = PInf"
| "fl_neg NaN = NaN"

fun fl_add :: "fl \<Rightarrow> fl \<Rightarrow> fl" where
  "fl_add NaN b = NaN"
| "fl_add a NaN = NaN"
| "fl_add (Fin x) (Fin y) = Fin (x + y)"
| "fl_add PInf NInf = NaN"
| "fl_add NInf PInf = NaN"
| "fl_add PInf b = PInf"
| "fl_add a PInf = PInf"
| "fl_add NInf b = NInf"
| "fl_add a NInf = NInf"

definition fl_sub :: "fl \<Rightarrow> fl \<Rightarrow> fl" where
  "fl_sub a b = fl_add a (fl_neg b)"

fun fl_mul :: "fl \<Rightarrow> fl \<Rightarrow> fl" where
  "fl_mul NaN b = NaN"
| "fl_mul a NaN = NaN"
| "fl_mul (Fin x) (Fin y) = Fin (x * y)"
| "fl_mul (Fin x) PInf = (if x = 0 then NaN else if 0 < x then PInf else NInf)"
| "fl_mul (Fin x) NInf = (if x = 0 then NaN else if 0 < x then NInf else PInf)"
| "fl_mul PInf (Fin y) = (if y = 0 then NaN else if 0 < y then PInf else NInf)"
| "fl_mul NInf (Fin y) = (if y = 0 then NaN else if 0 < y then NInf else PInf)"
| "fl_mul PInf PInf = PInf"
| "fl_mul PInf NInf = NInf"
| "fl_mul NInf PInf = NInf"
| "fl_mul NInf NInf = PInf"

fun fl_div :: "fl \<Rightarrow> fl \<Rightarrow> fl" where
  "fl_div NaN b = NaN"
| "fl_div a NaN = NaN"
| "fl_div (Fin x) (Fin y) =
     (if y = 0 then (if x = 0 then NaN else if 0 < x then PInf else NInf) else Fin (x / y))"
| "fl_div (Fin x) PInf = Fin 0"
| "fl_div (Fin x) NInf = Fin 0"
| "fl_div PInf (Fin y) = (if y < 0 then NInf else PInf)"
| "fl_div NInf (Fin y) = (if y < 0 then PInf else NInf)"
| "fl_div PInf PInf = NaN"
| "fl_div PInf NInf = NaN"
| "fl_div NInf PInf = NaN"
| "fl_div NInf NInf = NaN"

fun fl_abs :: "fl \<Rightarrow> fl" where
  "fl_abs (Fin x) = Fin \<bar>x\<bar>"
| "fl_abs PInf = PInf"
| "fl_abs NInf = PInf"
| "fl_abs NaN = NaN"

text \<open>\<open>a > t\<close> and \<open>a < t\<close> for a float \<open>a\<close> and a finite threshold \<open>t\<close>.\<close>

fun fl_gt :: "fl \<Rightarrow> real \<Rightarrow> bool" where
  "fl_gt (Fin x) t = (t < x)"
| "fl_gt PInf t = True"
| "fl_gt NInf t = False"
| "fl_gt NaN t = False"

fun fl_lt :: "fl \<Rightarrow> real \<Rightarrow> bool" where
  "fl_lt (Fin x) t = (x < t)"
| "fl_lt PInf t = False"
| "fl_lt NInf t = True"
| "fl_lt NaN t = False"

text \<open>Python's \<open>sum\<close>: a left fold that starts from 0.\<close>

definition fl_sum :: "fl list \<Rightarrow> fl" where
  "fl_sum xs = foldl fl_add (Fin 0) xs"

text \<open>\<open>np.mean\<close>: the sum divided by the number of entries; NaN on an empty array.\<close>

definition fl_mean :: "fl list \<Rightarrow> fl" where
  "fl_mean xs = (if xs = [] then NaN else fl_div (fl_sum xs) (Fin (real (length xs))))"

section \<open>Data\<close>

text \<open>
  One row of \<open>self.data.df\<close>: the values of the feature columns \<open>feat_cols\<close> and the closing
  price, a finite number (the engine refuses a frame with a missing price).
\<close>

record bar =
  feat_cols :: "real list"
  Close :: real

text \<open>A fitted regressor: \<open>predict\<close> on one feature vector.\<close>

type_synonym model = "real list \<Rightarrow> real"

text \<open>
  The position kept by the execution engine, as the strategy sees it through
  \<open>position.is_long\<close> and \<open>position.is_short\<close>. The engine is an external library; its
  effect is taken from the position state machine of the specification:
  \<open>position.close(); buy()\<close> leaves the position long, \<open>position.close(); sell()\<close>
  leaves it short.
\<close>

datatype position = Flat | Long | Short

datatype error = IndexError | KeyError | ZeroDivisionError | ValueError

text \<open>
  The arguments of \<open>build_meta_strategy\<close> that the strategy class closes over. \<open>fit\<close>
  stands for the learning algorithms of the external libraries: \<open>fit name X y\<close> is the
  regressor called \<open>name\<close> after \<open>.fit(X, y)\<close>.
\<close>

record config =
  base_models :: "(string \<times> model) list"
  trade_threshold :: real
  retrain_every :: int
  reweight_every_trades :: int
  window_len :: int
  fit :: "string \<Rightarrow> real list list \<Rightarrow> fl list \<Rightarrow> model"

text \<open>
  The fields of a \<open>MetaVoteStrategyV2\<close> object. A dict is the list of its items in
  insertion order. \<open>y_buf\<close> only ever receives labels that are not NaN; they can be
  infinite.
\<close>

record state =
  models :: "(string \<times> model) list"
  weights :: "(string \<times> fl) list"
  retrain_c :: int
  trade_c :: int
  X_buf :: "real list list"
  y_buf :: "fl list"
  position :: position

section \<open>Operations\<close>

text \<open>\<open>xs[-n:]\<close> for a positive \<open>n\<close>.\<close>

definition last_n :: "nat \<Rightarrow> 'a list \<Rightarrow> 'a list" where
  "last_n n xs = drop (length xs - n) xs"

text \<open>
  The return of a bar \<open>c\<close> that follows a bar \<open>p\<close>, as pandas computes it:
  \<open>Close[c] / Close[p] - 1\<close>. It is NaN when both prices are 0 and infinite when only the
  earlier one is.
\<close>

definition ret :: "bar \<Rightarrow> bar \<Rightarrow> fl" where
  "ret p c = fl_sub (fl_div (Fin (Close c)) (Fin (Close p))) (Fin 1)"

text \<open>\<open>df['Close'].pct_change()\<close>: NaN on the first row, then the return of each row.\<close>

definition pct_change :: "bar list \<Rightarrow> fl list" where
  "pct_change df = (case df of [] \<Rightarrow> [] | b # bs \<Rightarrow> NaN # map2 ret df bs)"

text \<open>
  \<open>deque.append\<close> on a deque created with \<open>maxlen\<close>: the item goes to the right end and,
  when the deque then holds more than \<open>maxlen\<close> items, the leftmost one is dropped.
\<close>

definition deque_append :: "int \<Rightarrow> 'a list \<Rightarrow> 'a \<Rightarrow> 'a list" where
  "deque_append maxlen d x =
     (let d' = d @ [x] in if int (length d') > maxlen then tl d' else d')"

text \<open>\<open>fit_models_on_gpu\<close>: four regressors under fixed names, each fitted on the batch.\<close>

definition fit_models_on_gpu ::
  "(string \<Rightarrow> real list list \<Rightarrow> fl list \<Rightarrow> model) \<Rightarrow> real list list \<Rightarrow> fl list
    \<Rightarrow> (string \<times> model) list" where
  "fit_models_on_gpu f X y =
     [(''xgb'', f ''xgb'' X y), (''lgb'', f ''lgb'' X y),
      (''cat'', f ''cat'' X y), (''rf'', f ''rf'' X y)]"

text \<open>\<open>init\<close>. \<open>deque(maxlen=n)\<close> raises ValueError for a negative \<open>n\<close>.\<close>

definition init :: "config \<Rightarrow> error + state" where
  "init cfg =
     (if window_len cfg < 0 then Inl ValueError
      else Inr \<lparr> models = base_models cfg,
                 weights = map (\<lambda>(k, m). (k, Fin (1 / real (length (base_models cfg)))))
                             (base_models cfg),
                 retrain_c = 0, trade_c = 0, X_buf = [], y_buf = [], position = Flat \<rparr>)"

text \<open>
  \<open>sum(preds[k] * self.weights[k] for k in preds)\<close>: a missing key of \<open>self.weights\<close>
  raises KeyError.
\<close>

fun weighted_sum :: "fl \<Rightarrow> (string \<times> real) list \<Rightarrow> (string \<times> fl) list \<Rightarrow> error + fl" where
  "weighted_sum acc [] ws = Inr acc"
| "weighted_sum acc ((k, p) # ps) ws =
     (case map_of ws k of
        None \<Rightarrow> Inl KeyError
      | Some w \<Rightarrow> weighted_sum (fl_add acc (fl_mul (Fin p) w)) ps ws)"

text \<open>
  \<open>_pred\<close>. \<open>iloc[-1]\<close> on an empty frame raises IndexError (there is at least one
  feature column).
\<close>

definition pred_meta :: "bar list \<Rightarrow> state \<Rightarrow> error + fl" where
  "pred_meta df st =
     (if df = [] then Inl IndexError
      else let feats = feat_cols (last df);
               preds = map (\<lambda>(k, m). (k, m feats)) (models st)
           in weighted_sum (Fin 0) preds (weights st))"

text \<open>
  \<open>np.abs(y_hat - rets.values)\<close> with numpy's broadcasting of one-dimensional arrays:
  equal lengths, or one side of length one; anything else raises ValueError.
\<close>

definition np_abs_diff :: "real list \<Rightarrow> fl list \<Rightarrow> error + fl list" where
  "np_abs_diff y_hat rets =
     (if length y_hat = length rets
        then Inr (map2 (\<lambda>p r. fl_abs (fl_sub (Fin p) r)) y_hat rets)
      else if length rets = 1
        then Inr (map (\<lambda>p. fl_abs (fl_sub (Fin p) (hd rets))) y_hat)
      else if length y_hat = 1
        then Inr (map (\<lambda>r. fl_abs (fl_sub (Fin (hd y_hat)) r)) rets)
      else Inl ValueError)"

text \<open>The loop of \<open>_update_weights\<close> that fills \<open>mae\<close>.\<close>

fun mae_loop ::
  "(string \<times> model) list \<Rightarrow> real list list \<Rightarrow> fl list \<Rightarrow> error + (string \<times> fl) list" where
  "mae_loop [] X_recent rets = Inr []"
| "mae_loop ((k, m) # ms) X_recent rets =
     (case np_abs_diff (map m X_recent) rets of
        Inl e \<Rightarrow> Inl e
      | Inr d \<Rightarrow> (case mae_loop ms X_recent rets of
                    Inl e \<Rightarrow> Inl e
                  | Inr mae \<Rightarrow> Inr ((k, fl_mean d) # mae)))"

text \<open>\<open>1/(mae[k] + 1e-8)\<close>.\<close>

definition inv_err :: "fl \<Rightarrow> fl" where
  "inv_err e = fl_div (Fin 1) (fl_add e (Fin (1 / 10 ^ 8)))"

text \<open>\<open>_update_weights\<close>.\<close>

definition update_weights :: "bar list \<Rightarrow> state \<Rightarrow> error + state" where
  "update_weights df st =
     (let rets = last_n 60 (pct_change df) in
      if list_all (\<lambda>r. r = NaN) rets then Inr st
      else
        let X_recent = last_n 60 (X_buf st) in
        if length X_recent < 60 then Inr st
        else
          (case mae_loop (models st) X_recent rets of
             Inl e \<Rightarrow> Inl e
           | Inr mae \<Rightarrow>
               let total = fl_sum (map (\<lambda>(k, e). inv_err e) mae) in
               Inr (st\<lparr>weights := map (\<lambda>(k, e). (k, fl_div (inv_err e) total)) mae\<rparr>)))"

text \<open>The four blocks of \<open>next\<close>, in the order of the source.\<close>

text \<open>Buffer the previous bar's features and this bar's label.\<close>

definition buffer_prev_bar :: "config \<Rightarrow> bar list \<Rightarrow> state \<Rightarrow> state" where
  "buffer_prev_bar cfg df st =
     (if length df > 1 then
        (let feat_vec = feat_cols (df ! (length df - 2));
             label = last (pct_change df)
         in if label \<noteq> NaN
            then st\<lparr>X_buf := deque_append (window_len cfg) (X_buf st) feat_vec,
                    y_buf := deque_append (window_len cfg) (y_buf st) label\<rparr>
            else st)
      else st)"

text \<open>Trading decision on the ensemble prediction \<open>z\<close>.\<close>

definition trade_decision :: "config \<Rightarrow> fl \<Rightarrow> state \<Rightarrow> state" where
  "trade_decision cfg z st =
     (if fl_gt z (trade_threshold cfg) \<and> position st \<noteq> Long
        then st\<lparr>position := Long, trade_c := trade_c st + 1\<rparr>
      else if fl_lt z (- trade_threshold cfg) \<and> position st \<noteq> Short
        then st\<lparr>position := Short, trade_c := trade_c st + 1\<rparr>
      else st)"

text \<open>Scheduled retrain. \<open>%\<close> by zero raises ZeroDivisionError.\<close>

definition scheduled_retrain :: "config \<Rightarrow> state \<Rightarrow> error + state" where
  "scheduled_retrain cfg st =
     (let st1 = st\<lparr>retrain_c := retrain_c st + 1\<rparr> in
      if retrain_every cfg = 0 then Inl ZeroDivisionError
      else if retrain_c st1 mod retrain_every cfg = 0 \<and> length (X_buf st1) > 500
        then Inr (st1\<lparr>models := fit_models_on_gpu (fit cfg) (X_buf st1) (y_buf st1)\<rparr>)
      else Inr st1)"

text \<open>Scheduled weight refresh.\<close>

definition scheduled_reweight :: "config \<Rightarrow> bar list \<Rightarrow> state \<Rightarrow> error + state" where
  "scheduled_reweight cfg df st =
     (if trade_c st \<ge> reweight_every_trades cfg then
        (case update_weights df st of
           Inl e \<Rightarrow> Inl e
         | Inr st1 \<Rightarrow> Inr (st1\<lparr>trade_c := 0\<rparr>))
      else Inr st)"

text \<open>\<open>next\<close>, called with \<open>self.data.df\<close> holding the bars up to the current one.\<close>

definition next_bar :: "config \<Rightarrow> bar list \<Rightarrow> state \<Rightarrow> error + state" where
  "next_bar cfg df st =
     (let st1 = buffer_prev_bar cfg df st in
      case pred_meta df st1 of
        Inl e \<Rightarrow> Inl e
      | Inr z \<Rightarrow>
          (case scheduled_retrain cfg (trade_decision cfg z st1) of
             Inl e \<Rightarrow> Inl e
           | Inr st3 \<Rightarrow> scheduled_reweight cfg df st3))"

text \<open>
  The backtesting engine's loop over the bars \<open>bs\<close> that follow the frame \<open>df\<close>: \<open>next\<close> is
  called once per bar, the frame growing by that bar; an exception ends the run. The
  engine makes its first call on the second bar, with a frame of two rows.
\<close>

fun run :: "config \<Rightarrow> bar list \<Rightarrow> state \<Rightarrow> bar list \<Rightarrow> error + state" where
  "run cfg df st [] = Inr st"
| "run cfg df st (b # bs) =
     (case next_bar cfg (df @ [b]) st of
        Inl e \<Rightarrow> Inl e
      | Inr st' \<Rightarrow> run cfg (df @ [b]) st' bs)"

text \<open>Feeding a sequence of predictions to the trading decision; the states after each.\<close>

fun decisions :: "config \<Rightarrow> fl list \<Rightarrow> state \<Rightarrow> state list" where
  "decisions cfg [] st = []"
| "decisions cfg (z # zs) st = trade_decision cfg z st # decisions cfg zs (trade_decision cfg z st)"

text \<open>Pushing a sequence of items into an empty deque of capacity \<open>maxlen\<close>.\<close>

definition pushes :: "int \<Rightarrow> 'a list \<Rightarrow> 'a list" where
  "pushes maxlen xs = foldl (deque_append maxlen) [] xs"

section \<open>Notions of the specification\<close>

text \<open>
  The samples that the buffering block of \<open>next\<close> pushes while the frame \<open>df\<close> grows by the
  bars \<open>bs\<close>, one call per bar: the features of the previous bar with the return of the
  new one, when there is a previous bar and the return is not NaN.
\<close>

fun pushed :: "bar list \<Rightarrow> bar list \<Rightarrow> (real list \<times> fl) list" where
  "pushed df [] = []"
| "pushed df (b # bs) =
     (if df = [] \<or> ret (last df) b = NaN then [] else [(feat_cols (last df), ret (last df) b)])
     @ pushed (df @ [b]) bs"

text \<open>
  The trailing errors as the specification words them: for each model, the mean absolute
  difference between its predictions on the feature vectors of \<open>recentSamples\<close> and the
  labels stored with those same samples. It is compared below with what \<open>_update_weights\<close>
  computes.
\<close>

definition reweight_mae_spec ::
  "(string \<times> model) list \<Rightarrow> (real list \<times> fl) list \<Rightarrow> (string \<times> fl) list" where
  "reweight_mae_spec ms recentSamples =
     map (\<lambda>(k, m). (k, fl_mean (map (\<lambda>(x, y). fl_abs (fl_sub (Fin (m x)) y)) recentSamples))) ms"

text \<open>The returns of the bars \<open>bs\<close> that follow the frame \<open>df\<close>.\<close>

fun rets_from :: "bar list \<Rightarrow> bar list \<Rightarrow> fl list" where
  "rets_from df [] = []"
| "rets_from df (b # bs) = ret (last df) b # rets_from (df @ [b]) bs"

section \<open>Concrete inputs\<close>

text \<open>
  A learning algorithm for the examples: the regressor named \<open>xgb\<close> predicts the size of
  its training batch, every other one predicts 0.
\<close>

definition ex_fit :: "string \<Rightarrow> real list list \<Rightarrow> fl list \<Rightarrow> model" where
  "ex_fit name X y = (\<lambda>feats. if name = ''xgb'' then real (length y) else 0)"

definition ex_cfg :: config where
  "ex_cfg = \<lparr> base_models = fit_models_on_gpu ex_fit [] [], trade_threshold = 0,
              retrain_every = 3, reweight_every_trades = 60, window_len = 10000,
              fit = ex_fit \<rparr>"

text \<open>A bar with price 100 and a bar with price 0.\<close>

definition ex_bar :: bar where
  "ex_bar = \<lparr> feat_cols = [1], Close = 100 \<rparr>"

definition ex_bar_zero :: bar where
  "ex_bar_zero = \<lparr> feat_cols = [1], Close = 0 \<rparr>"

text \<open>601 bars at the same price: the frame of the engine's 600th call of \<open>next\<close>.\<close>

definition ex_df :: "bar list" where
  "ex_df = replicate 601 ex_bar"

text \<open>
  A strategy object before that call: 599 buffered samples with label 0, weights that an
  earlier refresh has made unequal, a long position.
\<close>

definition ex_st :: state where
  "ex_st = \<lparr> models = fit_models_on_gpu ex_fit [] [],
             weights = [(''xgb'', Fin (7 / 10)), (''lgb'', Fin (1 / 10)),
                        (''cat'', Fin (1 / 10)), (''rf'', Fin (1 / 10))],
             retrain_c = 599, trade_c = 0,
             X_buf = replicate 599 [1], y_buf = replicate 599 (Fin 0),
             position = Long \<rparr>"

text \<open>The object after the call: one more sample, refitted models, the counter at 600.\<close>

definition ex_after :: state where
  "ex_after = \<lparr> models = fit_models_on_gpu ex_fit (replicate 600 [1]) (replicate 600 (Fin 0)),
                weights = [(''xgb'', Fin (7 / 10)), (''lgb'', Fin (1 / 10)),
                           (''cat'', Fin (1 / 10)), (''rf'', Fin (1 / 10))],
                retrain_c = 600, trade_c = 0,
                X_buf = replicate 600 [1], y_buf = replicate 600 (Fin 0),
                position = Long \<rparr>"

text \<open>The object that \<open>init\<close> builds for \<open>ex_cfg\<close>, and the one two quiet calls later.\<close>

definition ex_init :: state where
  "ex_init = \<lparr> models = fit_models_on_gpu ex_fit [] [],
               weights = [(''xgb'', Fin (1 / 4)), (''lgb'', Fin (1 / 4)),
                          (''cat'', Fin (1 / 4)), (''rf'', Fin (1 / 4))],
               retrain_c = 0, trade_c = 0, X_buf = [], y_buf = [], position = Flat \<rparr>"

definition ex_run2 :: state where
  "ex_run2 = ex_init\<lparr>retrain_c := 2, X_buf := [[1], [1]], y_buf := [Fin 0, Fin 0]\<rparr>"

text \<open>
  Nine bars whose prices are 1, 2, 6, 24, ..., so that the returns of the last eight are
  1, ..., 8; the feature of each bar is its index.
\<close>

definition ex_bars9 :: "bar list" where
  "ex_bars9 = [\<lparr>feat_cols = [0], Close = 1\<rparr>,
               \<lparr>feat_cols = [1], Close = 2\<rparr>,
               \<lparr>feat_cols = [2], Close = 6\<rparr>,
               \<lparr>feat_cols = [3], Close = 24\<rparr>,
               \<lparr>feat_cols = [4], Close = 120\<rparr>,
               \<lparr>feat_cols = [5], Close = 720\<rparr>,
               \<lparr>feat_cols = [6], Close = 5040\<rparr>,
               \<lparr>feat_cols = [7], Close = 40320\<rparr>,
               \<lparr>feat_cols = [8], Close = 362880\<rparr>]"

text \<open>
  A configuration with which the position changes side on every bar (the models of the
  examples predict 0 before any retrain, which is above the threshold -1 and below 1), and
  with a reweight every 61 trades.
\<close>

definition ex_cfg_nan :: config where
  "ex_cfg_nan = ex_cfg\<lparr>trade_threshold := - 1, reweight_every_trades := 61\<rparr>"

text \<open>
  62 bars: the price is 100 for 60 bars and 0 on the last two, so that the last return but
  one is -1 and the last one is 0/0, NaN.
\<close>

definition ex_df_nan :: "bar list" where
  "ex_df_nan = replicate 60 ex_bar @ [ex_bar_zero, ex_bar_zero]"

text \<open>
  The strategy object that a run with \<open>ex_cfg_nan\<close> holds after \<open>n\<close> calls at the price
  100: \<open>n\<close> samples, \<open>n\<close> trades, long after an odd number of calls and short after an
  even one.
\<close>

definition ex_flip :: "nat \<Rightarrow> state" where
  "ex_flip n = ex_init\<lparr>retrain_c := int n, trade_c := int n,
                       X_buf := replicate n [1], y_buf := replicate n (Fin 0),
                       position := (if n = 0 then Flat else if odd n then Long else Short)\<rparr>"

text \<open>
  The object before the call of \<open>next\<close> on the last bar of \<open>ex_df_nan\<close>: the 60 samples of
  the bars 2 to 61 and 60 trades.
\<close>

definition ex_st_nan :: state where
  "ex_st_nan = \<lparr> models = fit_models_on_gpu ex_fit [] [],
                 weights = [(''xgb'', Fin (1 / 4)), (''lgb'', Fin (1 / 4)),
                            (''cat'', Fin (1 / 4)), (''rf'', Fin (1 / 4))],
                 retrain_c = 60, trade_c = 60,
                 X_buf = replicate 60 [1], y_buf = replicate 59 (Fin 0) @ [Fin (- 1)],
                 position = Short \<rparr>"

text \<open>
  The object after that call, in which the 61st trade makes the reweight due: every weight
  is NaN.
\<close>

definition ex_after_nan :: state where
  "ex_after_nan = ex_st_nan\<lparr>retrain_c := 61, trade_c := 0, position := Long,
                            weights := [(''xgb'', NaN), (''lgb'', NaN),
                                        (''cat'', NaN), (''rf'', NaN)]\<rparr>"

section \<open>Arithmetic\<close>

lemma fl_sub_simps [simp]:
  "fl_sub (Fin x) (Fin y) = Fin (x - y)"
  "fl_sub NaN b = NaN" "fl_sub a NaN = NaN"
  by (cases a; simp add: fl_sub_def)+

lemma fl_add_NaN [simp]: "fl_add a NaN = NaN"
  by (cases a) simp_all

lemma fl_div_NaN [simp]: "fl_div a NaN = NaN"
  by (cases a) simp_all

lemma fl_abs_eq_NaN [simp]: "fl_abs a = NaN \<longleftrightarrow> a = NaN"
  by (cases a) simp_all

lemma foldl_fl_add_Fin:
  "foldl fl_add (Fin a) (map Fin xs) = Fin (a + sum_list xs)"
  by (induction xs arbitrary: a) (simp_all add: add.assoc)

lemma fl_sum_Fin: "fl_sum (map Fin xs) = Fin (sum_list xs)"
  by (simp add: fl_sum_def foldl_fl_add_Fin)

lemma foldl_fl_add_NaN: "foldl fl_add NaN xs = NaN"
  by (induction xs) simp_all

lemma fl_sum_NaN:
  assumes "NaN \<in> set xs"
  shows "fl_sum xs = NaN"
proof -
  have "foldl fl_add a xs = NaN" for a
    using assms
  proof (induction xs arbitrary: a)
    case Nil
    then show ?case by simp
  next
    case (Cons x xs)
    then show ?case by (cases "x = NaN") (auto simp: foldl_fl_add_NaN)
  qed
  then show ?thesis by (simp add: fl_sum_def)
qed

lemma fl_mean_Fin:
  "xs \<noteq> [] \<Longrightarrow> fl_mean (map Fin xs) = Fin (sum_list xs / real (length xs))"
  by (simp add: fl_mean_def fl_sum_Fin)

lemma fl_mean_NaN: "NaN \<in> set xs \<Longrightarrow> fl_mean xs = NaN"
  by (auto simp: fl_mean_def fl_sum_NaN)

lemma fl_sum_replicate: "fl_sum (replicate n (Fin d)) = Fin (real n * d)"
  using fl_sum_Fin [of "replicate n d"] by (simp add: sum_list_replicate)

lemma fl_mean_replicate: "0 < n \<Longrightarrow> fl_mean (replicate n (Fin d)) = Fin d"
  by (simp add: fl_mean_def fl_sum_replicate)

lemma inv_err_Fin: "0 \<le> e \<Longrightarrow> inv_err (Fin e) = Fin (1 / (e + 1 / 10 ^ 8))"
  by (simp add: inv_err_def)

lemma inv_err_NaN [simp]: "inv_err NaN = NaN"
  by (simp add: inv_err_def)

section \<open>Returns\<close>

lemma length_pct_change [simp]: "length (pct_change df) = length df"
  by (cases df) (simp_all add: pct_change_def)

lemma zip_snoc_tl:
  "zip (a # xs @ [b]) (xs @ [b]) = zip (a # xs) xs @ [(last (a # xs), b)]"
  by (induction xs arbitrary: a) simp_all

lemma pct_change_snoc:
  assumes "df \<noteq> []"
  shows "pct_change (df @ [b]) = pct_change df @ [ret (last df) b]"
proof -
  from assms obtain a xs where df: "df = a # xs" by (cases df) auto
  show ?thesis
    unfolding df pct_change_def using zip_snoc_tl [of a xs b] by simp
qed

lemma last_pct_change:
  "df \<noteq> [] \<Longrightarrow> last (pct_change (df @ [b])) = ret (last df) b"
  by (simp add: pct_change_snoc)

lemma pct_change_replicate:
  "pct_change (replicate (Suc n) b) = NaN # replicate n (ret b b)"
proof -
  have "zip (b # replicate n b) (replicate n b) = replicate n (b, b)"
    by (induction n) simp_all
  then show ?thesis by (simp add: pct_change_def)
qed

lemma ret_ex [simp]:
  "ret ex_bar ex_bar = Fin 0" "ret ex_bar ex_bar_zero = Fin (- 1)"
  "ret ex_bar_zero ex_bar_zero = NaN"
  by (simp_all add: ret_def ex_bar_def ex_bar_zero_def)

text \<open>A price after a price of 0 gives an infinite return, which is buffered as a label.\<close>

lemma ret_infinite: "Close p = 0 \<Longrightarrow> 0 < Close c \<Longrightarrow> ret p c = PInf"
  by (simp add: ret_def fl_sub_def)

section \<open>The rolling buffer\<close>

lemma deque_append_last_n:
  "deque_append (int C) (last_n C xs) x = last_n C (xs @ [x])"
proof (cases "length xs < C")
  case True
  then show ?thesis by (simp add: deque_append_def last_n_def Let_def)
next
  case False
  then have len: "length (last_n C xs) = C" by (simp add: last_n_def)
  have "tl (last_n C xs @ [x]) = last_n C (xs @ [x])"
  proof (cases "C = 0")
    case True
    then show ?thesis by (simp add: last_n_def)
  next
    case nz: False
    with False have "last_n C xs \<noteq> []" using len by auto
    then have "tl (last_n C xs @ [x]) = drop 1 (last_n C xs) @ [x]"
      by (simp add: drop_Suc)
    also have "\<dots> = drop (Suc (length xs - C)) xs @ [x]"
      by (simp add: last_n_def)
    also have "\<dots> = last_n C (xs @ [x])"
      using False nz by (simp add: last_n_def Suc_diff_le)
    finally show ?thesis .
  qed
  with len show ?thesis by (simp add: deque_append_def Let_def)
qed

lemma pushes_last_n: "pushes (int C) xs = last_n C xs"
proof (induction xs rule: rev_induct)
  case Nil
  then show ?case by (simp add: pushes_def last_n_def)
next
  case (snoc x xs)
  then show ?case by (simp add: pushes_def deque_append_last_n)
qed

lemma foldl_deque_append_last_n:
  "foldl (deque_append (int C)) (last_n C xs) ys = last_n C (xs @ ys)"
proof (induction ys arbitrary: xs)
  case Nil
  then show ?case by simp
next
  case (Cons y ys)
  have "foldl (deque_append (int C)) (last_n C xs) (y # ys)
        = foldl (deque_append (int C)) (last_n C (xs @ [y])) ys"
    by (simp add: deque_append_last_n)
  also have "\<dots> = last_n C ((xs @ [y]) @ ys)" by (rule Cons.IH)
  finally show ?case by simp
qed

section \<open>The position state machine\<close>

text \<open>
  C7. With threshold 0 and a flat position, the predictions 0.1, -0.2, 0.05, 0.3, -0.1
  lead to the positions Long, Short, Long, Long, Short, and the trade counter grows by
  1, 2, 3, 3, 4: four trades, none on the fourth prediction.
\<close>

theorem cold_start_transitions:
  assumes "trade_threshold cfg = 0" and "position st = Flat"
  shows "map position
           (decisions cfg [Fin (1/10), Fin (- (2/10)), Fin (5/100), Fin (3/10), Fin (- (1/10))] st)
         = [Long, Short, Long, Long, Short]
       \<and> map trade_c
           (decisions cfg [Fin (1/10), Fin (- (2/10)), Fin (5/100), Fin (3/10), Fin (- (1/10))] st)
         = [trade_c st + 1, trade_c st + 2, trade_c st + 3, trade_c st + 3, trade_c st + 4]"
  using assms by (simp add: trade_decision_def)

theorem cold_start_transitions_witness:
  "trade_threshold ex_cfg = 0 \<and> position (ex_st\<lparr>position := Flat, trade_c := 0\<rparr>) = Flat
   \<and> map position
        (decisions ex_cfg [Fin (1/10), Fin (- (2/10)), Fin (5/100), Fin (3/10), Fin (- (1/10))]
           (ex_st\<lparr>position := Flat, trade_c := 0\<rparr>))
      = [Long, Short, Long, Long, Short]
   \<and> map trade_c
        (decisions ex_cfg [Fin (1/10), Fin (- (2/10)), Fin (5/100), Fin (3/10), Fin (- (1/10))]
           (ex_st\<lparr>position := Flat, trade_c := 0\<rparr>))
      = [1, 2, 3, 3, 4]"
proof -
  have t: "trade_threshold ex_cfg = 0" by (simp add: ex_cfg_def)
  have p: "position (ex_st\<lparr>position := Flat, trade_c := 0\<rparr>) = Flat" by simp
  show ?thesis using t p cold_start_transitions [OF t p] by simp
qed

section \<open>What each block of \<open>next\<close> leaves unchanged\<close>

lemma buffer_prev_bar_frame [simp]:
  "models (buffer_prev_bar cfg df st) = models st"
  "weights (buffer_prev_bar cfg df st) = weights st"
  "retrain_c (buffer_prev_bar cfg df st) = retrain_c st"
  "trade_c (buffer_prev_bar cfg df st) = trade_c st"
  "position (buffer_prev_bar cfg df st) = position st"
  by (simp_all add: buffer_prev_bar_def Let_def)

lemma trade_decision_frame [simp]:
  "models (trade_decision cfg z st) = models st"
  "weights (trade_decision cfg z st) = weights st"
  "retrain_c (trade_decision cfg z st) = retrain_c st"
  "X_buf (trade_decision cfg z st) = X_buf st"
  "y_buf (trade_decision cfg z st) = y_buf st"
  by (simp_all add: trade_decision_def)

lemma scheduled_retrain_frame:
  assumes "scheduled_retrain cfg st = Inr st'"
  shows "weights st' = weights st" and "trade_c st' = trade_c st"
    and "X_buf st' = X_buf st" and "y_buf st' = y_buf st"
    and "position st' = position st" and "retrain_c st' = retrain_c st + 1"
  using assms by (auto simp: scheduled_retrain_def Let_def split: if_splits)

lemma update_weights_frame:
  assumes "update_weights df st = Inr st'"
  shows "models st' = models st" and "trade_c st' = trade_c st"
    and "X_buf st' = X_buf st" and "y_buf st' = y_buf st"
    and "position st' = position st" and "retrain_c st' = retrain_c st"
  using assms by (auto simp: update_weights_def Let_def split: if_splits sum.splits)

lemma scheduled_reweight_frame:
  assumes "scheduled_reweight cfg df st = Inr st'"
  shows "models st' = models st"
    and "X_buf st' = X_buf st" and "y_buf st' = y_buf st"
    and "position st' = position st" and "retrain_c st' = retrain_c st"
  using assms update_weights_frame
  by (auto simp: scheduled_reweight_def split: if_splits sum.splits)

lemma next_bar_Inr:
  assumes "next_bar cfg df st = Inr st'"
  obtains z st3 where "pred_meta df (buffer_prev_bar cfg df st) = Inr z"
    and "scheduled_retrain cfg (trade_decision cfg z (buffer_prev_bar cfg df st)) = Inr st3"
    and "scheduled_reweight cfg df st3 = Inr st'"
  using assms by (auto simp: next_bar_def Let_def split: sum.splits)

lemma next_bar_buffers:
  assumes "next_bar cfg df st = Inr st'"
  shows "X_buf st' = X_buf (buffer_prev_bar cfg df st)"
    and "y_buf st' = y_buf (buffer_prev_bar cfg df st)"
proof -
  from assms obtain z st3 where
    r: "scheduled_retrain cfg (trade_decision cfg z (buffer_prev_bar cfg df st)) = Inr st3"
    and w: "scheduled_reweight cfg df st3 = Inr st'"
    by (rule next_bar_Inr)
  show "X_buf st' = X_buf (buffer_prev_bar cfg df st)"
    using scheduled_retrain_frame(3) [OF r] scheduled_reweight_frame(2) [OF w] by simp
  show "y_buf st' = y_buf (buffer_prev_bar cfg df st)"
    using scheduled_retrain_frame(4) [OF r] scheduled_reweight_frame(3) [OF w] by simp
qed

section \<open>Evaluation of the concrete inputs\<close>

lemma replicate_600: "x # replicate 599 x = replicate 600 x"
proof -
  have "(600::nat) = Suc 599" by simp
  then show ?thesis by (simp only: replicate_Suc)
qed

lemma pct_change_ex_df: "pct_change ex_df = NaN # replicate 600 (Fin 0)"
proof -
  have "(601::nat) = Suc 600" by simp
  then show ?thesis unfolding ex_df_def by (simp only: pct_change_replicate ret_ex)
qed

lemma ex_df_facts:
  "length ex_df = 601" "ex_df \<noteq> []" "last ex_df = ex_bar" "ex_df ! 599 = ex_bar"
  "last (pct_change ex_df) = Fin 0" "last_n 60 (pct_change ex_df) = replicate 60 (Fin 0)"
  by (simp_all add: pct_change_ex_df last_n_def drop_Cons') (simp_all add: ex_df_def)

lemma ex_buffer:
  "buffer_prev_bar ex_cfg ex_df ex_st
     = ex_st\<lparr>X_buf := replicate 600 [1], y_buf := replicate 600 (Fin 0)\<rparr>"
  by (simp add: buffer_prev_bar_def ex_df_facts ex_bar_def ex_cfg_def ex_st_def
        deque_append_def Let_def replicate_append_same replicate_600)

lemma ex_pred:
  "pred_meta ex_df (ex_st\<lparr>X_buf := replicate 600 [1], y_buf := replicate 600 (Fin 0)\<rparr>) = Inr (Fin 0)"
  by (simp add: pred_meta_def ex_df_facts ex_st_def fit_models_on_gpu_def ex_fit_def Let_def)

lemma ex_next: "next_bar ex_cfg ex_df ex_st = Inr ex_after"
  unfolding next_bar_def Let_def ex_buffer ex_pred
  by (simp add: trade_decision_def scheduled_retrain_def
        scheduled_reweight_def ex_cfg_def ex_st_def ex_after_def Let_def)

lemma ex_init_eq: "init ex_cfg = Inr ex_init"
  by (simp add: init_def ex_cfg_def ex_init_def fit_models_on_gpu_def)

lemma pct_change_two: "pct_change [a, b] = [NaN, ret a b]"
  by (simp add: pct_change_def)

lemma ex_run: "run ex_cfg [ex_bar] ex_init [ex_bar, ex_bar] = Inr ex_run2"
  by (simp add: next_bar_def buffer_prev_bar_def pred_meta_def trade_decision_def
        scheduled_retrain_def scheduled_reweight_def Let_def deque_append_def
        pct_change_def ret_def ex_cfg_def ex_init_def ex_run2_def ex_bar_def
        fit_models_on_gpu_def ex_fit_def)

section \<open>The rolling buffer in a run\<close>

lemma buffer_prev_bar_pushed:
  "X_buf (buffer_prev_bar cfg (df @ [b]) st)
     = foldl (deque_append (window_len cfg)) (X_buf st) (map fst (pushed df [b]))"
  "y_buf (buffer_prev_bar cfg (df @ [b]) st)
     = foldl (deque_append (window_len cfg)) (y_buf st) (map snd (pushed df [b]))"
proof -
  have "X_buf (buffer_prev_bar cfg (df @ [b]) st)
          = foldl (deque_append (window_len cfg)) (X_buf st) (map fst (pushed df [b]))
      \<and> y_buf (buffer_prev_bar cfg (df @ [b]) st)
          = foldl (deque_append (window_len cfg)) (y_buf st) (map snd (pushed df [b]))"
  proof (cases "df = []")
    case True
    then show ?thesis by (simp add: buffer_prev_bar_def)
  next
    case False
    then have n: "(df @ [b]) ! (length (df @ [b]) - 2) = last df"
      by (simp add: nth_append last_conv_nth)
    have l: "last (pct_change (df @ [b])) = ret (last df) b"
      using False by (rule last_pct_change)
    have g: "Suc 0 < length (df @ [b])" using False by simp
    show ?thesis
      unfolding buffer_prev_bar_def Let_def using False g
      by (simp add: n l del: length_append)
  qed
  then show "X_buf (buffer_prev_bar cfg (df @ [b]) st)
     = foldl (deque_append (window_len cfg)) (X_buf st) (map fst (pushed df [b]))"
    and "y_buf (buffer_prev_bar cfg (df @ [b]) st)
     = foldl (deque_append (window_len cfg)) (y_buf st) (map snd (pushed df [b]))"
    by simp_all
qed

lemma pushed_Cons: "pushed df (b # bs) = pushed df [b] @ pushed (df @ [b]) bs"
  by simp

lemma run_pushed:
  "run cfg df st bs = Inr st' \<Longrightarrow>
     X_buf st' = foldl (deque_append (window_len cfg)) (X_buf st) (map fst (pushed df bs))
   \<and> y_buf st' = foldl (deque_append (window_len cfg)) (y_buf st) (map snd (pushed df bs))"
proof (induction bs arbitrary: df st)
  case Nil
  then show ?case by simp
next
  case (Cons b bs)
  from Cons.prems obtain s where s: "next_bar cfg (df @ [b]) st = Inr s"
    and r: "run cfg (df @ [b]) s bs = Inr st'"
    by (auto split: sum.splits)
  have x: "X_buf s = foldl (deque_append (window_len cfg)) (X_buf st) (map fst (pushed df [b]))"
    using next_bar_buffers(1) [OF s] buffer_prev_bar_pushed(1) by simp
  have y: "y_buf s = foldl (deque_append (window_len cfg)) (y_buf st) (map snd (pushed df [b]))"
    using next_bar_buffers(2) [OF s] buffer_prev_bar_pushed(2) by simp
  from Cons.IH [OF r] show ?case
    unfolding pushed_Cons [of df b bs] x y by (simp del: pushed.simps)
qed

text \<open>
  After a run from \<open>init\<close> the two deques hold the features and the labels of the last
  \<open>window_len\<close> samples pushed, in the order of the bars.
\<close>

lemma run_buffers_last_pushed:
  assumes "init cfg = Inr st0" and "run cfg df st0 bs = Inr st"
  shows "X_buf st = last_n (nat (window_len cfg)) (map fst (pushed df bs))"
    and "y_buf st = last_n (nat (window_len cfg)) (map snd (pushed df bs))"
    and "length (X_buf st) \<le> nat (window_len cfg)"
proof -
  from assms(1) have w: "int (nat (window_len cfg)) = window_len cfg"
    and x0: "X_buf st0 = last_n (nat (window_len cfg)) []"
    and y0: "y_buf st0 = last_n (nat (window_len cfg)) []"
    by (auto simp: init_def last_n_def split: if_splits)
  from run_pushed [OF assms(2)]
  have "X_buf st = foldl (deque_append (int (nat (window_len cfg)))) (X_buf st0) (map fst (pushed df bs))"
    and "y_buf st = foldl (deque_append (int (nat (window_len cfg)))) (y_buf st0) (map snd (pushed df bs))"
    unfolding w by simp_all
  then show x: "X_buf st = last_n (nat (window_len cfg)) (map fst (pushed df bs))"
    and "y_buf st = last_n (nat (window_len cfg)) (map snd (pushed df bs))"
    unfolding x0 y0 foldl_deque_append_last_n by simp_all
  show "length (X_buf st) \<le> nat (window_len cfg)"
    unfolding x by (simp add: last_n_def)
qed

lemma ex_run9:
  "run (ex_cfg\<lparr>window_len := 5\<rparr>) (take 1 ex_bars9) ex_init (drop 1 ex_bars9)
   = Inr (ex_init\<lparr>retrain_c := 8, X_buf := [[3], [4], [5], [6], [7]],
                   y_buf := [Fin 4, Fin 5, Fin 6, Fin 7, Fin 8]\<rparr>)"
  by (simp add: next_bar_def buffer_prev_bar_def pred_meta_def trade_decision_def
        scheduled_retrain_def scheduled_reweight_def Let_def deque_append_def
        pct_change_def ret_def ex_cfg_def ex_init_def ex_bars9_def
        fit_models_on_gpu_def ex_fit_def)

text \<open>
  C6. After any sequence of pushes into an empty deque of capacity \<open>C\<close>, the deque holds
  at most \<open>C\<close> items, they are a suffix of the pushed sequence (exactly its last \<open>C\<close>
  items, in order), and with capacity 5 the pushes 1, ..., 8 leave 4, 5, 6, 7, 8; so does
  the strategy with \<open>window_len = 5\<close> on nine bars whose returns after the first are
  1, ..., 8. (For every run, \<open>run_buffers_last_pushed\<close> gives the same for \<open>X_buf\<close> and
  \<open>y_buf\<close>.)
\<close>

theorem rolling_buffer_bounded_suffix:
  "length (pushes (int C) xs) \<le> C
   \<and> suffix (pushes (int C) xs) xs
   \<and> pushes (int C) xs = last_n C xs
   \<and> pushes 5 [1, 2, 3, 4, 5, 6, 7, 8 :: real] = [4, 5, 6, 7, 8]
   \<and> init (ex_cfg\<lparr>window_len := 5\<rparr>) = Inr ex_init
   \<and> run (ex_cfg\<lparr>window_len := 5\<rparr>) (take 1 ex_bars9) ex_init (drop 1 ex_bars9)
       = Inr (ex_init\<lparr>retrain_c := 8, X_buf := [[3], [4], [5], [6], [7]],
                       y_buf := [Fin 4, Fin 5, Fin 6, Fin 7, Fin 8]\<rparr>)"
proof -
  have five: "pushes (int 5) [1, 2, 3, 4, 5, 6, 7, 8 :: real] = last_n 5 [1, 2, 3, 4, 5, 6, 7, 8]"
    by (rule pushes_last_n)
  have "length (last_n C xs) \<le> C" by (simp add: last_n_def)
  moreover have "suffix (last_n C xs) xs" by (simp add: last_n_def suffix_drop)
  moreover have "last_n 5 [1, 2, 3, 4, 5, 6, 7, 8 :: real] = [4, 5, 6, 7, 8]"
    by (simp add: last_n_def)
  moreover have "init (ex_cfg\<lparr>window_len := 5\<rparr>) = Inr ex_init"
    by (simp add: init_def ex_cfg_def ex_init_def fit_models_on_gpu_def)
  ultimately show ?thesis using five ex_run9 by (simp add: pushes_last_n)
qed

section \<open>Undefined labels\<close>

text \<open>
  C8. On a bar that is not the first and whose return is NaN, the buffering block changes
  nothing: both deques stay as they were. The block has no error outcome, and the rest of
  the bar (prediction, decision, retrain, reweight) runs on the unchanged state; if the bar
  completes, the buffers after it are those before it.
\<close>

theorem undefined_label_not_buffered:
  assumes "length df > 1" and "last (pct_change df) = NaN"
  shows "buffer_prev_bar cfg df st = st
       \<and> next_bar cfg df st =
           (case pred_meta df st of
              Inl e \<Rightarrow> Inl e
            | Inr z \<Rightarrow> (case scheduled_retrain cfg (trade_decision cfg z st) of
                          Inl e \<Rightarrow> Inl e
                        | Inr st3 \<Rightarrow> scheduled_reweight cfg df st3))
       \<and> (next_bar cfg df st = Inr st' \<longrightarrow> X_buf st' = X_buf st \<and> y_buf st' = y_buf st)"
proof -
  have b: "buffer_prev_bar cfg df st = st"
    using assms by (simp add: buffer_prev_bar_def)
  have n: "next_bar cfg df st =
           (case pred_meta df st of
              Inl e \<Rightarrow> Inl e
            | Inr z \<Rightarrow> (case scheduled_retrain cfg (trade_decision cfg z st) of
                          Inl e \<Rightarrow> Inl e
                        | Inr st3 \<Rightarrow> scheduled_reweight cfg df st3))"
    by (simp add: next_bar_def b)
  have "X_buf st' = X_buf st \<and> y_buf st' = y_buf st" if "next_bar cfg df st = Inr st'"
    using next_bar_buffers [OF that] b by simp
  with b n show ?thesis by blast
qed

section \<open>Feature and label buffers stay aligned\<close>

lemma deque_append_length:
  "length d = length e \<Longrightarrow> length (deque_append n d x) = length (deque_append n e y)"
  by (simp add: deque_append_def Let_def)

lemma buffer_prev_bar_lengths:
  assumes "length (X_buf st) = length (y_buf st)"
  shows "length (X_buf (buffer_prev_bar cfg df st)) = length (y_buf (buffer_prev_bar cfg df st))"
  using assms deque_append_length [of "X_buf st" "y_buf st"]
  by (simp add: buffer_prev_bar_def Let_def)

lemma next_bar_lengths:
  assumes "next_bar cfg df st = Inr st'" and "length (X_buf st) = length (y_buf st)"
  shows "length (X_buf st') = length (y_buf st')"
  using next_bar_buffers [OF assms(1)] buffer_prev_bar_lengths [OF assms(2)] by simp

lemma run_lengths:
  "run cfg df st bs = Inr st' \<Longrightarrow> length (X_buf st) = length (y_buf st)
     \<Longrightarrow> length (X_buf st') = length (y_buf st')"
proof (induction bs arbitrary: df st)
  case Nil
  then show ?case by simp
next
  case (Cons b bs)
  from Cons.prems(1) obtain s where s: "next_bar cfg (df @ [b]) st = Inr s"
    and r: "run cfg (df @ [b]) s bs = Inr st'"
    by (auto split: sum.splits)
  from next_bar_lengths [OF s Cons.prems(2)] Cons.IH [OF r] show ?case by simp
qed

text \<open>
  C10. After any run from \<open>init\<close>, \<open>X_buf\<close> and \<open>y_buf\<close> have the same length, and so
  have the two buffers from which the retrain block of any further bar assembles its batch
  (the state after that bar's buffering and decision blocks).
\<close>

theorem buffers_equal_length:
  assumes "init cfg = Inr st0" and "run cfg df st0 bs = Inr st"
  shows "length (X_buf st) = length (y_buf st)
       \<and> length (X_buf (trade_decision cfg z (buffer_prev_bar cfg df' st)))
         = length (y_buf (trade_decision cfg z (buffer_prev_bar cfg df' st)))"
proof -
  from assms(1) have "length (X_buf st0) = length (y_buf st0)"
    by (auto simp: init_def split: if_splits)
  from run_lengths [OF assms(2) this] have e: "length (X_buf st) = length (y_buf st)" .
  from buffer_prev_bar_lengths [OF e] e show ?thesis by simp
qed

theorem buffers_equal_length_witness:
  "init ex_cfg = Inr ex_init
   \<and> run ex_cfg [ex_bar] ex_init [ex_bar, ex_bar] = Inr ex_run2
   \<and> length (X_buf ex_run2) = 2 \<and> length (y_buf ex_run2) = 2"
proof -
  have i: "init ex_cfg = Inr ex_init" by (rule ex_init_eq)
  have r: "run ex_cfg [ex_bar] ex_init [ex_bar, ex_bar] = Inr ex_run2" by (rule ex_run)
  show ?thesis using i r buffers_equal_length [OF i r] by (simp add: ex_run2_def)
qed

section \<open>Retrain and the weights\<close>

text \<open>
  C1 (as the code has it). A retrain that is executed replaces the models by the ones
  fitted on the whole buffer and leaves \<open>weights\<close> exactly as it was; nothing resets the
  weights to uniform.
\<close>

theorem retrain_keeps_weights:
  assumes "scheduled_retrain cfg st = Inr st'"
    and "(retrain_c st + 1) mod retrain_every cfg = 0" and "length (X_buf st) > 500"
  shows "models st' = fit_models_on_gpu (fit cfg) (X_buf st) (y_buf st)
       \<and> weights st' = weights st"
  using assms by (auto simp: scheduled_retrain_def Let_def split: if_splits)

theorem retrain_keeps_weights_witness:
  "scheduled_retrain ex_cfg (buffer_prev_bar ex_cfg ex_df ex_st) = Inr ex_after
   \<and> (retrain_c (buffer_prev_bar ex_cfg ex_df ex_st) + 1) mod retrain_every ex_cfg = 0
   \<and> length (X_buf (buffer_prev_bar ex_cfg ex_df ex_st)) > 500
   \<and> models ex_after = fit_models_on_gpu (fit ex_cfg) (replicate 600 [1]) (replicate 600 (Fin 0))
   \<and> weights ex_after = weights (buffer_prev_bar ex_cfg ex_df ex_st)"
proof -
  have r: "scheduled_retrain ex_cfg (buffer_prev_bar ex_cfg ex_df ex_st) = Inr ex_after"
    unfolding ex_buffer
    by (simp add: scheduled_retrain_def ex_cfg_def ex_st_def ex_after_def Let_def)
  have m: "(retrain_c (buffer_prev_bar ex_cfg ex_df ex_st) + 1) mod retrain_every ex_cfg = 0"
    by (simp add: ex_cfg_def ex_st_def)
  have l: "length (X_buf (buffer_prev_bar ex_cfg ex_df ex_st)) > 500"
    unfolding ex_buffer by simp
  show ?thesis using r m l retrain_keeps_weights [OF r m l]
    unfolding ex_buffer by simp
qed

text \<open>
  At the 600th call of the example the retrain is executed (the models are refitted, there
  are four of them) and the weight of \<open>xgb\<close> is still 7/10, not 1/4.
\<close>

theorem retrain_resets_weights_counterexample:
  "next_bar ex_cfg ex_df ex_st = Inr ex_after
   \<and> models ex_after = fit_models_on_gpu ex_fit (replicate 600 [1]) (replicate 600 (Fin 0))
   \<and> length (models ex_after) = 4
   \<and> weights ex_after = weights ex_st
   \<and> map_of (weights ex_after) ''xgb'' = Some (Fin (7 / 10))
   \<and> (7 / 10 :: real) \<noteq> 1 / 4"
  using ex_next by (simp add: ex_after_def ex_st_def fit_models_on_gpu_def)

section \<open>The retrain counter\<close>

text \<open>
  C4 (as the code has it). \<open>retrain_c\<close> is never reset: when a retrain is executed the
  counter is its previous value plus one, a multiple of \<open>retrain_every\<close>, and, the counter
  never being negative in a run, not 0.
\<close>

theorem retrain_counter_not_reset:
  assumes "scheduled_retrain cfg st = Inr st'"
    and "(retrain_c st + 1) mod retrain_every cfg = 0" and "length (X_buf st) > 500"
    and "0 \<le> retrain_c st"
  shows "retrain_c st' = retrain_c st + 1
       \<and> retrain_c st' mod retrain_every cfg = 0
       \<and> retrain_c st' \<noteq> 0"
  using assms by (auto simp: scheduled_retrain_def Let_def split: if_splits)

theorem retrain_counter_not_reset_witness:
  "scheduled_retrain ex_cfg (buffer_prev_bar ex_cfg ex_df ex_st) = Inr ex_after
   \<and> (retrain_c (buffer_prev_bar ex_cfg ex_df ex_st) + 1) mod retrain_every ex_cfg = 0
   \<and> length (X_buf (buffer_prev_bar ex_cfg ex_df ex_st)) > 500
   \<and> 0 \<le> retrain_c (buffer_prev_bar ex_cfg ex_df ex_st)
   \<and> retrain_c ex_after = 600"
proof -
  have r: "scheduled_retrain ex_cfg (buffer_prev_bar ex_cfg ex_df ex_st) = Inr ex_after"
    unfolding ex_buffer
    by (simp add: scheduled_retrain_def ex_cfg_def ex_st_def ex_after_def Let_def)
  have m: "(retrain_c (buffer_prev_bar ex_cfg ex_df ex_st) + 1) mod retrain_every ex_cfg = 0"
    by (simp add: ex_cfg_def ex_st_def)
  have l: "length (X_buf (buffer_prev_bar ex_cfg ex_df ex_st)) > 500"
    unfolding ex_buffer by simp
  have p: "0 \<le> retrain_c (buffer_prev_bar ex_cfg ex_df ex_st)"
    by (simp add: ex_st_def)
  show ?thesis using r m l p retrain_counter_not_reset [OF r m l p]
    by (simp add: ex_st_def)
qed

text \<open>
  At the 600th call of the example the retrain is executed and the counter goes from 599
  to 600.
\<close>

theorem retrain_counter_reset_counterexample:
  "next_bar ex_cfg ex_df ex_st = Inr ex_after
   \<and> models ex_after = fit_models_on_gpu ex_fit (X_buf ex_after) (y_buf ex_after)
   \<and> retrain_c ex_st = 599
   \<and> retrain_c ex_after = 600
   \<and> retrain_c ex_after \<noteq> 0"
  using ex_next by (simp add: ex_after_def ex_st_def)

section \<open>An empty registry\<close>

text \<open>
  C5 (as the code has it). With no models, \<open>_pred\<close> does not fail: the sum over no
  predictions is 0. With a threshold that is not negative this 0 is neutral: the decision
  block changes nothing (no transition, no trade counted) and the position after the bar is
  the position before it.
\<close>

theorem empty_registry_predicts_zero:
  assumes "models st = []" and "df \<noteq> []" and "0 \<le> trade_threshold cfg"
  shows "pred_meta df (buffer_prev_bar cfg df st) = Inr (Fin 0)
       \<and> trade_decision cfg (Fin 0) (buffer_prev_bar cfg df st) = buffer_prev_bar cfg df st
       \<and> (next_bar cfg df st = Inr st' \<longrightarrow> position st' = position st)"
proof -
  let ?b = "buffer_prev_bar cfg df st"
  have p: "pred_meta df ?b = Inr (Fin 0)"
    using assms(1,2) by (simp add: pred_meta_def)
  have d: "trade_decision cfg (Fin 0) ?b = ?b"
    using assms(3) by (simp add: trade_decision_def)
  have "position st' = position st" if n: "next_bar cfg df st = Inr st'"
  proof -
    from n obtain z st3 where z: "pred_meta df ?b = Inr z"
      and r: "scheduled_retrain cfg (trade_decision cfg z ?b) = Inr st3"
      and w: "scheduled_reweight cfg df st3 = Inr st'"
      by (rule next_bar_Inr)
    from z p have "z = Fin 0" by simp
    with r d have "scheduled_retrain cfg ?b = Inr st3" by simp
    from scheduled_retrain_frame(5) [OF this] scheduled_reweight_frame(4) [OF w]
    show ?thesis by simp
  qed
  with p d show ?thesis by blast
qed

theorem empty_registry_predicts_zero_witness:
  "models (ex_st\<lparr>models := []\<rparr>) = [] \<and> ex_df \<noteq> [] \<and> 0 \<le> trade_threshold ex_cfg
   \<and> pred_meta ex_df (buffer_prev_bar ex_cfg ex_df (ex_st\<lparr>models := []\<rparr>)) = Inr (Fin 0)
   \<and> trade_decision ex_cfg (Fin 0) (buffer_prev_bar ex_cfg ex_df (ex_st\<lparr>models := []\<rparr>))
       = buffer_prev_bar ex_cfg ex_df (ex_st\<lparr>models := []\<rparr>)"
proof -
  have m: "models (ex_st\<lparr>models := []\<rparr>) = []" by simp
  have d: "ex_df \<noteq> []" by (rule ex_df_facts)
  have t: "0 \<le> trade_threshold ex_cfg" by (simp add: ex_cfg_def)
  show ?thesis using m d t empty_registry_predicts_zero [OF m d t] by simp
qed

text \<open>
  With no models the prediction on the example frame is the value 0, not an error; and with
  threshold -1 the bar completes, goes from flat to long and counts one trade.
\<close>

theorem empty_registry_error_counterexample:
  "pred_meta ex_df (ex_st\<lparr>models := []\<rparr>) = Inr (Fin 0)
   \<and> position (ex_st\<lparr>models := [], position := Flat\<rparr>) = Flat
   \<and> next_bar (ex_cfg\<lparr>trade_threshold := - 1\<rparr>) ex_df (ex_st\<lparr>models := [], position := Flat\<rparr>)
       = Inr (ex_after\<lparr>trade_c := 1\<rparr>)
   \<and> position (ex_after\<lparr>trade_c := 1\<rparr>) = Long
   \<and> trade_c (ex_st\<lparr>models := [], position := Flat\<rparr>) = 0
   \<and> trade_c (ex_after\<lparr>trade_c := 1\<rparr>) = 1"
proof -
  have p: "pred_meta ex_df (ex_st\<lparr>models := []\<rparr>) = Inr (Fin 0)"
    by (simp add: pred_meta_def ex_df_facts)
  have "next_bar (ex_cfg\<lparr>trade_threshold := - 1\<rparr>) ex_df (ex_st\<lparr>models := [], position := Flat\<rparr>)
       = Inr (ex_after\<lparr>trade_c := 1\<rparr>)"
    by (simp add: next_bar_def buffer_prev_bar_def pred_meta_def trade_decision_def
        scheduled_retrain_def scheduled_reweight_def Let_def deque_append_def
        ex_df_facts ex_cfg_def ex_st_def ex_after_def ex_bar_def
        replicate_append_same replicate_600)
  with p show ?thesis by (simp add: ex_after_def ex_st_def)
qed

section \<open>What a reweight computes\<close>

lemma length_last_n: "n \<le> length xs \<Longrightarrow> length (last_n n xs) = n"
  by (simp add: last_n_def)

lemma last_n_replicate: "n \<le> k \<Longrightarrow> last_n n (replicate k x) = replicate n x"
  by (simp add: last_n_def)

lemma mae_loop_equal_lengths:
  assumes "length X = length rets"
  shows "mae_loop ms X rets
         = Inr (map (\<lambda>(k, m). (k, fl_mean (map2 (\<lambda>p r. fl_abs (fl_sub (Fin p) r))
                                              (map m X) rets))) ms)"
proof (induction ms)
  case Nil
  then show ?case by simp
next
  case (Cons km ms)
  obtain k m where km: "km = (k, m)" by (cases km)
  have d: "np_abs_diff (map m X) rets
           = Inr (map2 (\<lambda>p r. fl_abs (fl_sub (Fin p) r)) (map m X) rets)"
    using assms by (simp add: np_abs_diff_def)
  show ?case by (simp add: km d Cons.IH)
qed

text \<open>
  With 60 buffered samples, a frame of 60 bars and a window that is not all NaN, the
  reweight stores the weights of the inverse-error rule for the errors of the current
  models on the last 60 buffered feature vectors against the last 60 returns of the frame.
\<close>

lemma update_weights_explicit:
  assumes "60 \<le> length (X_buf st)" and "60 \<le> length df"
    and "\<not> list_all (\<lambda>r. r = NaN) (last_n 60 (pct_change df))"
    and "mae = map (\<lambda>(k, m). (k, fl_mean (map2 (\<lambda>p r. fl_abs (fl_sub (Fin p) r))
                     (map m (last_n 60 (X_buf st))) (last_n 60 (pct_change df))))) (models st)"
  shows "update_weights df st
         = Inr (st\<lparr>weights := map (\<lambda>(k, e). (k, fl_div (inv_err e)
                                    (fl_sum (map (\<lambda>(k, e). inv_err e) mae)))) mae\<rparr>)"
proof -
  have lx: "length (last_n 60 (X_buf st)) = 60" using assms(1) by (rule length_last_n)
  have lr: "length (last_n 60 (pct_change df)) = 60" using assms(2) by (simp add: length_last_n)
  have len: "length (last_n 60 (X_buf st)) = length (last_n 60 (pct_change df))"
    using lx lr by simp
  have nl: "\<not> length (last_n 60 (X_buf st)) < 60" using lx by simp
  show ?thesis
    unfolding update_weights_def Let_def assms(4)
    by (simp only: assms(3) nl if_False mae_loop_equal_lengths [OF len] sum.case)
qed

section \<open>Retrain before reweight\<close>

text \<open>
  C9. On a bar where the retrain is executed and the reweight fires on a window that is
  not all NaN, the bar ends with the refitted models and with the weights of the
  inverse-error rule for the errors of those refitted models: each error is the mean
  absolute difference between the predictions of a model fitted on this bar's buffer and
  the last 60 returns. The models held before the bar occur nowhere in the new weights.
\<close>

theorem retrain_before_reweight:
  assumes "pred_meta df (buffer_prev_bar cfg df st) = Inr z"
    and "st2 = trade_decision cfg z (buffer_prev_bar cfg df st)"
    and "retrain_every cfg \<noteq> 0"
    and "(retrain_c st2 + 1) mod retrain_every cfg = 0" and "length (X_buf st2) > 500"
    and "trade_c st2 \<ge> reweight_every_trades cfg"
    and "60 \<le> length df" and "\<not> list_all (\<lambda>r. r = NaN) (last_n 60 (pct_change df))"
    and "refit = fit_models_on_gpu (fit cfg) (X_buf st2) (y_buf st2)"
    and "mae = map (\<lambda>(k, m). (k, fl_mean (map2 (\<lambda>p r. fl_abs (fl_sub (Fin p) r))
                     (map m (last_n 60 (X_buf st2))) (last_n 60 (pct_change df))))) refit"
  shows "next_bar cfg df st =
           Inr \<lparr> models = refit,
                 weights = map (\<lambda>(k, e). (k, fl_div (inv_err e)
                                  (fl_sum (map (\<lambda>(k, e). inv_err e) mae)))) mae,
                 retrain_c = retrain_c st2 + 1, trade_c = 0,
                 X_buf = X_buf st2, y_buf = y_buf st2, position = position st2 \<rparr>"
proof -
  let ?st3 = "\<lparr> models = refit, weights = weights st2, retrain_c = retrain_c st2 + 1,
                 trade_c = trade_c st2, X_buf = X_buf st2, y_buf = y_buf st2,
                 position = position st2 \<rparr>"
  have r: "scheduled_retrain cfg st2 = Inr ?st3"
    using assms(3,4,5) by (simp add: scheduled_retrain_def Let_def assms(9))
  have n: "next_bar cfg df st =
          (case scheduled_retrain cfg st2 of
             Inl e \<Rightarrow> Inl e
           | Inr st3 \<Rightarrow> scheduled_reweight cfg df st3)"
    using assms(1,2) by (simp add: next_bar_def Let_def)
  have x: "60 \<le> length (X_buf ?st3)" using assms(5) by simp
  have m: "mae = map (\<lambda>(k, m). (k, fl_mean (map2 (\<lambda>p r. fl_abs (fl_sub (Fin p) r))
                     (map m (last_n 60 (X_buf ?st3))) (last_n 60 (pct_change df))))) (models ?st3)"
    by (simp add: assms(10))
  note u = update_weights_explicit [OF x assms(7) assms(8) m]
  show ?thesis
    unfolding n r using assms(6) by (simp add: scheduled_reweight_def u)
qed

lemma ex_buffer60:
  "buffer_prev_bar ex_cfg ex_df (ex_st\<lparr>trade_c := 60\<rparr>)
     = ex_st\<lparr>trade_c := 60, X_buf := replicate 600 [1], y_buf := replicate 600 (Fin 0)\<rparr>"
  by (simp add: buffer_prev_bar_def ex_df_facts ex_bar_def ex_cfg_def ex_st_def
        deque_append_def Let_def replicate_append_same replicate_600)

lemma ex_pred60:
  "pred_meta ex_df (buffer_prev_bar ex_cfg ex_df (ex_st\<lparr>trade_c := 60\<rparr>)) = Inr (Fin 0)"
  unfolding ex_buffer60
  by (simp add: pred_meta_def ex_df_facts ex_st_def fit_models_on_gpu_def ex_fit_def Let_def)

lemma ex_decision60:
  "trade_decision ex_cfg (Fin 0) (buffer_prev_bar ex_cfg ex_df (ex_st\<lparr>trade_c := 60\<rparr>))
     = ex_st\<lparr>trade_c := 60, X_buf := replicate 600 [1], y_buf := replicate 600 (Fin 0)\<rparr>"
  unfolding ex_buffer60
  by (simp add: trade_decision_def ex_cfg_def)

lemma ex_window: "\<not> list_all (\<lambda>r. r = NaN) (last_n 60 (pct_change ex_df))"
  by (simp add: ex_df_facts list_all_iff)

text \<open>
  The weights that the models held before the bar would give on the same window: every
  one of them predicts 0, every error is 0, the weights are equal.
\<close>

lemma ex_reweight_old_models:
  "update_weights ex_df (ex_st\<lparr>trade_c := 60, X_buf := replicate 600 [1],
                              y_buf := replicate 600 (Fin 0)\<rparr>)
   = Inr (ex_st\<lparr>trade_c := 60, X_buf := replicate 600 [1], y_buf := replicate 600 (Fin 0),
                weights := [(''xgb'', Fin (1 / 4)), (''lgb'', Fin (1 / 4)),
                            (''cat'', Fin (1 / 4)), (''rf'', Fin (1 / 4))]\<rparr>)"
proof -
  let ?s = "ex_st\<lparr>trade_c := 60, X_buf := replicate 600 [1], y_buf := replicate 600 (Fin 0)\<rparr>"
  have x: "60 \<le> length (X_buf ?s)" by simp
  have d: "60 \<le> length ex_df" by (simp add: ex_df_facts)
  show ?thesis
    unfolding update_weights_explicit [OF x d ex_window refl]
    by (simp add: ex_st_def ex_df_facts last_n_replicate fit_models_on_gpu_def ex_fit_def
          zip_replicate fl_mean_replicate inv_err_def fl_sum_def)
qed

theorem retrain_before_reweight_witness:
  "pred_meta ex_df (buffer_prev_bar ex_cfg ex_df (ex_st\<lparr>trade_c := 60\<rparr>)) = Inr (Fin 0)
   \<and> retrain_every ex_cfg \<noteq> 0
   \<and> (retrain_c (ex_st\<lparr>trade_c := 60, X_buf := replicate 600 [1],
                     y_buf := replicate 600 (Fin 0)\<rparr>) + 1) mod retrain_every ex_cfg = 0
   \<and> length (X_buf (ex_st\<lparr>trade_c := 60, X_buf := replicate 600 [1],
                     y_buf := replicate 600 (Fin 0)\<rparr>)) > 500
   \<and> trade_c (ex_st\<lparr>trade_c := 60, X_buf := replicate 600 [1],
                     y_buf := replicate 600 (Fin 0)\<rparr>) \<ge> reweight_every_trades ex_cfg
   \<and> 60 \<le> length ex_df
   \<and> \<not> list_all (\<lambda>r. r = NaN) (last_n 60 (pct_change ex_df))
   \<and> next_bar ex_cfg ex_df (ex_st\<lparr>trade_c := 60\<rparr>) =
       Inr (ex_after\<lparr>weights := [(''xgb'', Fin (1 / 180000000004)),
                                 (''lgb'', Fin (60000000001 / 180000000004)),
                                 (''cat'', Fin (60000000001 / 180000000004)),
                                 (''rf'', Fin (60000000001 / 180000000004))]\<rparr>)
   \<and> update_weights ex_df (ex_st\<lparr>trade_c := 60, X_buf := replicate 600 [1],
                                  y_buf := replicate 600 (Fin 0)\<rparr>)
       = Inr (ex_st\<lparr>trade_c := 60, X_buf := replicate 600 [1], y_buf := replicate 600 (Fin 0),
                    weights := [(''xgb'', Fin (1 / 4)), (''lgb'', Fin (1 / 4)),
                                (''cat'', Fin (1 / 4)), (''rf'', Fin (1 / 4))]\<rparr>)"
proof -
  let ?s2 = "ex_st\<lparr>trade_c := 60, X_buf := replicate 600 [1], y_buf := replicate 600 (Fin 0)\<rparr>"
  have p: "pred_meta ex_df (buffer_prev_bar ex_cfg ex_df (ex_st\<lparr>trade_c := 60\<rparr>)) = Inr (Fin 0)"
    by (rule ex_pred60)
  have d: "?s2 = trade_decision ex_cfg (Fin 0) (buffer_prev_bar ex_cfg ex_df (ex_st\<lparr>trade_c := 60\<rparr>))"
    by (rule ex_decision60 [symmetric])
  have z: "retrain_every ex_cfg \<noteq> 0" by (simp add: ex_cfg_def)
  have m: "(retrain_c ?s2 + 1) mod retrain_every ex_cfg = 0" by (simp add: ex_cfg_def ex_st_def)
  have l: "length (X_buf ?s2) > 500" by simp
  have t: "trade_c ?s2 \<ge> reweight_every_trades ex_cfg" by (simp add: ex_cfg_def)
  have f: "60 \<le> length ex_df" by (simp add: ex_df_facts)
  note c = retrain_before_reweight [OF p d z m l t f ex_window refl refl]
  have "next_bar ex_cfg ex_df (ex_st\<lparr>trade_c := 60\<rparr>) =
       Inr (ex_after\<lparr>weights := [(''xgb'', Fin (1 / 180000000004)),
                                 (''lgb'', Fin (60000000001 / 180000000004)),
                                 (''cat'', Fin (60000000001 / 180000000004)),
                                 (''rf'', Fin (60000000001 / 180000000004))]\<rparr>)"
    unfolding c
    by (simp add: ex_st_def ex_after_def ex_cfg_def ex_df_facts last_n_replicate
          fit_models_on_gpu_def ex_fit_def zip_replicate fl_mean_replicate inv_err_def
          fl_sum_def)
  with p z m l t f ex_window ex_reweight_old_models show ?thesis by blast
qed

section \<open>A window with an undefined return\<close>

lemma mae_loop_NaN:
  assumes "length X = length rets" and "NaN \<in> set rets"
  shows "mae_loop ms X rets = Inr (map (\<lambda>(k, m). (k, NaN)) ms)"
proof -
  have n: "NaN \<in> set (map2 (\<lambda>p r. fl_abs (fl_sub (Fin p) r)) (map m X) rets)" for m
  proof -
    from assms(2) obtain i where i: "i < length rets" and r: "rets ! i = NaN"
      by (auto simp: in_set_conv_nth)
    let ?d = "map2 (\<lambda>p r. fl_abs (fl_sub (Fin p) r)) (map m X) rets"
    have "?d ! i = NaN" using i r assms(1) by simp
    moreover have "i < length ?d" using i assms(1) by simp
    ultimately show ?thesis by (metis nth_mem)
  qed
  show ?thesis
    unfolding mae_loop_equal_lengths [OF assms(1)]
    by (induction ms) (auto simp: fl_mean_NaN [OF n])
qed

text \<open>
  One NaN among the last 60 returns, in a window that is not all NaN, makes every new
  weight NaN.
\<close>

lemma update_weights_nan:
  assumes "60 \<le> length (X_buf st)" and "60 \<le> length df"
    and "NaN \<in> set (last_n 60 (pct_change df))"
    and "\<not> list_all (\<lambda>r. r = NaN) (last_n 60 (pct_change df))"
  shows "update_weights df st = Inr (st\<lparr>weights := map (\<lambda>(k, m). (k, NaN)) (models st)\<rparr>)"
proof -
  have lx: "length (last_n 60 (X_buf st)) = 60" using assms(1) by (rule length_last_n)
  have lr: "length (last_n 60 (pct_change df)) = 60" using assms(2) by (simp add: length_last_n)
  have len: "length (last_n 60 (X_buf st)) = length (last_n 60 (pct_change df))"
    using lx lr by simp
  have nl: "\<not> length (last_n 60 (X_buf st)) < 60" using lx by simp
  have w: "map (\<lambda>(k, e). (k, fl_div (inv_err e) t)) (map (\<lambda>(k, m). (k, NaN)) ms)
           = map (\<lambda>(k, m). (k, NaN)) ms" for t and ms :: "(string \<times> model) list"
    by (induction ms) auto
  show ?thesis
    unfolding update_weights_def Let_def
    by (simp only: assms(4) nl if_False mae_loop_NaN [OF len assms(3)] sum.case w)
qed

lemma pct_change_ex_df_nan:
  "pct_change ex_df_nan = NaN # replicate 59 (Fin 0) @ [Fin (- 1), NaN]"
proof -
  have s: "(60::nat) = Suc 59" by simp
  have a: "pct_change (replicate 60 ex_bar) = NaN # replicate 59 (Fin 0)"
    unfolding s by (simp only: pct_change_replicate ret_ex)
  have b: "pct_change (replicate 60 ex_bar @ [ex_bar_zero])
           = (NaN # replicate 59 (Fin 0)) @ [Fin (- 1)]"
    using pct_change_snoc [of "replicate 60 ex_bar" ex_bar_zero] a by simp
  have "pct_change ((replicate 60 ex_bar @ [ex_bar_zero]) @ [ex_bar_zero])
        = ((NaN # replicate 59 (Fin 0)) @ [Fin (- 1)]) @ [NaN]"
    using pct_change_snoc [of "replicate 60 ex_bar @ [ex_bar_zero]" ex_bar_zero] b by simp
  then show ?thesis by (simp add: ex_df_nan_def)
qed

lemma ex_df_nan_facts:
  "length ex_df_nan = 62" "ex_df_nan \<noteq> []" "last ex_df_nan = ex_bar_zero"
  "last (pct_change ex_df_nan) = NaN"
  "last_n 60 (pct_change ex_df_nan) = replicate 58 (Fin 0) @ [Fin (- 1), NaN]"
  by (simp_all add: pct_change_ex_df_nan last_n_def drop_Cons') (simp_all add: ex_df_nan_def)

lemma ex_nan_window:
  "NaN \<in> set (last_n 60 (pct_change ex_df_nan))"
  "\<not> list_all (\<lambda>r. r = NaN) (last_n 60 (pct_change ex_df_nan))"
  by (simp_all add: ex_df_nan_facts)

lemma ex_nan_buffer: "buffer_prev_bar ex_cfg_nan ex_df_nan ex_st_nan = ex_st_nan"
  by (simp add: buffer_prev_bar_def ex_df_nan_facts)

lemma ex_nan_update:
  "update_weights ex_df_nan (ex_st_nan\<lparr>retrain_c := 61, trade_c := 61, position := Long\<rparr>)
   = Inr (ex_st_nan\<lparr>retrain_c := 61, trade_c := 61, position := Long,
                      weights := [(''xgb'', NaN), (''lgb'', NaN), (''cat'', NaN), (''rf'', NaN)]\<rparr>)"
proof -
  have x: "60 \<le> length (X_buf (ex_st_nan\<lparr>retrain_c := 61, trade_c := 61, position := Long\<rparr>))"
    by (simp add: ex_st_nan_def)
  have d: "60 \<le> length ex_df_nan" by (simp add: ex_df_nan_facts)
  show ?thesis
    unfolding update_weights_nan [OF x d ex_nan_window]
    by (simp add: ex_st_nan_def fit_models_on_gpu_def)
qed

lemma ex_nan_next: "next_bar ex_cfg_nan ex_df_nan ex_st_nan = Inr ex_after_nan"
proof -
  have p: "pred_meta ex_df_nan ex_st_nan = Inr (Fin 0)"
    by (simp add: pred_meta_def ex_df_nan_facts ex_st_nan_def fit_models_on_gpu_def
          ex_fit_def Let_def)
  have t: "trade_decision ex_cfg_nan (Fin 0) ex_st_nan
           = ex_st_nan\<lparr>trade_c := 61, position := Long\<rparr>"
    by (simp add: trade_decision_def ex_cfg_nan_def ex_cfg_def ex_st_nan_def)
  have r: "scheduled_retrain ex_cfg_nan (ex_st_nan\<lparr>trade_c := 61, position := Long\<rparr>)
           = Inr (ex_st_nan\<lparr>retrain_c := 61, trade_c := 61, position := Long\<rparr>)"
    by (simp add: scheduled_retrain_def ex_cfg_nan_def ex_cfg_def ex_st_nan_def Let_def)
  have w: "scheduled_reweight ex_cfg_nan ex_df_nan
             (ex_st_nan\<lparr>retrain_c := 61, trade_c := 61, position := Long\<rparr>)
           = Inr ex_after_nan"
    unfolding scheduled_reweight_def ex_nan_update
    by (simp add: ex_cfg_nan_def ex_cfg_def ex_st_nan_def ex_after_nan_def)
  show ?thesis
    unfolding next_bar_def Let_def ex_nan_buffer p by (simp add: t r w)
qed

text \<open>
  The run that leads there. At the price 100 every call buffers a sample with label 0,
  predicts 0 and changes side.
\<close>

lemma ex_flip_step:
  assumes "n < 60"
  shows "next_bar ex_cfg_nan (replicate (Suc n) ex_bar @ [ex_bar]) (ex_flip n)
         = Inr (ex_flip (Suc n))"
proof -
  let ?df = "replicate (Suc n) ex_bar @ [ex_bar]"
  have l: "last (pct_change ?df) = Fin 0"
    by (simp add: last_pct_change del: replicate.simps)
  have i: "?df ! (length ?df - 2) = ex_bar"
    by (simp add: nth_append del: replicate.simps)
  have b: "buffer_prev_bar ex_cfg_nan ?df (ex_flip n)
           = (ex_flip n)\<lparr>X_buf := replicate (Suc n) [1], y_buf := replicate (Suc n) (Fin 0)\<rparr>"
    unfolding buffer_prev_bar_def Let_def l i using assms
    by (simp add: deque_append_def ex_cfg_nan_def ex_cfg_def ex_flip_def ex_bar_def
          replicate_append_same)
  have p: "pred_meta ?df
             ((ex_flip n)\<lparr>X_buf := replicate (Suc n) [1], y_buf := replicate (Suc n) (Fin 0)\<rparr>)
           = Inr (Fin 0)"
    by (simp add: pred_meta_def ex_flip_def ex_init_def fit_models_on_gpu_def ex_fit_def Let_def)
  have t: "trade_decision ex_cfg_nan (Fin 0)
             ((ex_flip n)\<lparr>X_buf := replicate (Suc n) [1], y_buf := replicate (Suc n) (Fin 0)\<rparr>)
           = (ex_flip (Suc n))\<lparr>retrain_c := int n\<rparr>"
    by (simp add: trade_decision_def ex_cfg_nan_def ex_cfg_def ex_flip_def ex_init_def)
  have r: "scheduled_retrain ex_cfg_nan ((ex_flip (Suc n))\<lparr>retrain_c := int n\<rparr>)
           = Inr (ex_flip (Suc n))"
    using assms
    by (simp add: scheduled_retrain_def ex_cfg_nan_def ex_cfg_def ex_flip_def ex_init_def Let_def)
  have w: "scheduled_reweight ex_cfg_nan ?df (ex_flip (Suc n)) = Inr (ex_flip (Suc n))"
    using assms
    by (simp add: scheduled_reweight_def ex_cfg_nan_def ex_cfg_def ex_flip_def ex_init_def)
  show ?thesis
    unfolding next_bar_def Let_def b p by (simp only: sum.case t r w)
qed

lemma ex_flip_run:
  "n + m < 60
     \<Longrightarrow> run ex_cfg_nan (replicate (Suc n) ex_bar) (ex_flip n) (replicate m ex_bar @ bs)
         = run ex_cfg_nan (replicate (Suc (n + m)) ex_bar) (ex_flip (n + m)) bs"
proof (induction m arbitrary: n)
  case 0
  then show ?case by simp
next
  case (Suc m)
  have s: "replicate (Suc n) ex_bar @ [ex_bar] = replicate (Suc (Suc n)) ex_bar"
    by (simp add: replicate_append_same)
  have e: "replicate (Suc m) ex_bar @ bs = ex_bar # (replicate m ex_bar @ bs)" by simp
  have n: "n < 60" using Suc.prems by simp
  have "run ex_cfg_nan (replicate (Suc n) ex_bar) (ex_flip n) (replicate (Suc m) ex_bar @ bs)
        = run ex_cfg_nan (replicate (Suc n) ex_bar @ [ex_bar]) (ex_flip (Suc n))
            (replicate m ex_bar @ bs)"
    unfolding e by (simp only: run.simps ex_flip_step [OF n] sum.case)
  also have "\<dots> = run ex_cfg_nan (replicate (Suc (Suc n + m)) ex_bar) (ex_flip (Suc n + m)) bs"
    unfolding s using Suc.prems by (intro Suc.IH) simp
  finally show ?case by simp
qed

lemma ex_flip_last:
  "next_bar ex_cfg_nan (replicate 60 ex_bar @ [ex_bar_zero]) (ex_flip 59) = Inr ex_st_nan"
proof -
  let ?df = "replicate 60 ex_bar @ [ex_bar_zero]"
  have l: "last (pct_change ?df) = Fin (- 1)" by (simp add: last_pct_change)
  have i: "?df ! (length ?df - 2) = ex_bar"
    by (simp add: nth_append)
  have s: "replicate 59 x @ [x] = replicate 60 x" for x :: 'a
    by (simp add: replicate_append_same) (simp only: replicate_Suc [symmetric], simp)
  have b: "buffer_prev_bar ex_cfg_nan ?df (ex_flip 59)
           = (ex_flip 59)\<lparr>X_buf := replicate 60 [1],
                           y_buf := replicate 59 (Fin 0) @ [Fin (- 1)]\<rparr>"
    unfolding buffer_prev_bar_def Let_def l i
    by (simp add: deque_append_def ex_cfg_nan_def ex_cfg_def ex_flip_def ex_bar_def s)
  have p: "pred_meta ?df
             ((ex_flip 59)\<lparr>X_buf := replicate 60 [1],
                             y_buf := replicate 59 (Fin 0) @ [Fin (- 1)]\<rparr>)
           = Inr (Fin 0)"
    by (simp add: pred_meta_def ex_flip_def ex_init_def fit_models_on_gpu_def ex_fit_def Let_def)
  have t: "trade_decision ex_cfg_nan (Fin 0)
             ((ex_flip 59)\<lparr>X_buf := replicate 60 [1],
                             y_buf := replicate 59 (Fin 0) @ [Fin (- 1)]\<rparr>)
           = ex_st_nan\<lparr>retrain_c := 59\<rparr>"
    by (simp add: trade_decision_def ex_cfg_nan_def ex_cfg_def ex_flip_def ex_init_def
          ex_st_nan_def)
  have r: "scheduled_retrain ex_cfg_nan (ex_st_nan\<lparr>retrain_c := 59\<rparr>) = Inr ex_st_nan"
    by (simp add: scheduled_retrain_def ex_cfg_nan_def ex_cfg_def ex_st_nan_def Let_def)
  have w: "scheduled_reweight ex_cfg_nan ?df ex_st_nan = Inr ex_st_nan"
    by (simp add: scheduled_reweight_def ex_cfg_nan_def ex_cfg_def ex_st_nan_def)
  show ?thesis
    unfolding next_bar_def Let_def b p by (simp add: t r w)
qed

lemma ex_nan_run:
  "init ex_cfg_nan = Inr ex_init"
  "run ex_cfg_nan [ex_bar] ex_init (replicate 59 ex_bar @ [ex_bar_zero]) = Inr ex_st_nan"
  "run ex_cfg_nan [ex_bar] ex_init (replicate 59 ex_bar @ [ex_bar_zero, ex_bar_zero])
   = Inr ex_after_nan"
proof -
  show "init ex_cfg_nan = Inr ex_init"
    by (simp add: init_def ex_cfg_nan_def ex_cfg_def ex_init_def fit_models_on_gpu_def)
  have f: "ex_flip 0 = ex_init" by (simp add: ex_flip_def ex_init_def)
  have s: "replicate (Suc 59) ex_bar = replicate 60 ex_bar" by simp
  have a: "run ex_cfg_nan [ex_bar] ex_init (replicate 59 ex_bar @ bs)
           = run ex_cfg_nan (replicate 60 ex_bar) (ex_flip 59) bs" for bs
    using ex_flip_run [of 0 59 bs] by (simp add: f)
  show "run ex_cfg_nan [ex_bar] ex_init (replicate 59 ex_bar @ [ex_bar_zero]) = Inr ex_st_nan"
    unfolding a by (simp add: ex_flip_last)
  show "run ex_cfg_nan [ex_bar] ex_init (replicate 59 ex_bar @ [ex_bar_zero, ex_bar_zero])
        = Inr ex_after_nan"
    unfolding a by (simp add: ex_flip_last ex_df_nan_def [symmetric] ex_nan_next)
qed

text \<open>
  The last call of the run over \<open>ex_df_nan\<close>: the return of its bar is 0/0, the call
  completes, and the buffers after it are the buffers before it.
\<close>

theorem undefined_label_not_buffered_witness:
  "length ex_df_nan > 1 \<and> last (pct_change ex_df_nan) = NaN
   \<and> buffer_prev_bar ex_cfg_nan ex_df_nan ex_st_nan = ex_st_nan
   \<and> next_bar ex_cfg_nan ex_df_nan ex_st_nan = Inr ex_after_nan
   \<and> X_buf ex_st_nan = replicate 60 [1]
   \<and> X_buf ex_after_nan = X_buf ex_st_nan \<and> y_buf ex_after_nan = y_buf ex_st_nan"
proof -
  have l: "length ex_df_nan > 1" by (simp add: ex_df_nan_facts)
  have n: "last (pct_change ex_df_nan) = NaN" by (rule ex_df_nan_facts(4))
  show ?thesis
    using l n ex_nan_next
      undefined_label_not_buffered [OF l n, of ex_cfg_nan ex_st_nan ex_after_nan]
    by (simp add: ex_st_nan_def ex_after_nan_def)
qed

section \<open>A window with an infinite return\<close>

lemma foldl_fl_add_PInf:
  "list_all (\<lambda>d. d \<noteq> NaN \<and> d \<noteq> NInf) xs \<Longrightarrow> foldl fl_add PInf xs = PInf"
proof (induction xs)
  case Nil
  then show ?case by simp
next
  case (Cons x xs)
  then show ?case by (cases x) simp_all
qed

lemma foldl_fl_add_reaches_PInf:
  "list_all (\<lambda>d. d \<noteq> NaN \<and> d \<noteq> NInf) xs \<Longrightarrow> PInf \<in> set xs
     \<Longrightarrow> foldl fl_add (Fin a) xs = PInf"
proof (induction xs arbitrary: a)
  case Nil
  then show ?case by simp
next
  case (Cons x xs)
  then show ?case by (cases x) (auto simp: foldl_fl_add_PInf)
qed

lemma abs_diff_infinite:
  assumes "r \<noteq> NaN"
  shows "fl_abs (fl_sub (Fin p) r) \<noteq> NaN" and "fl_abs (fl_sub (Fin p) r) \<noteq> NInf"
    and "r = PInf \<or> r = NInf \<Longrightarrow> fl_abs (fl_sub (Fin p) r) = PInf"
  using assms by (cases r; simp add: fl_sub_def)+

lemma mean_abs_diff_infinite:
  assumes "length ps = length rets" and "NaN \<notin> set rets"
    and "PInf \<in> set rets \<or> NInf \<in> set rets"
  shows "fl_mean (map2 (\<lambda>p r. fl_abs (fl_sub (Fin p) r)) ps rets) = PInf"
proof -
  let ?d = "map2 (\<lambda>p r. fl_abs (fl_sub (Fin p) r)) ps rets"
  have all: "list_all (\<lambda>d. d \<noteq> NaN \<and> d \<noteq> NInf) ?d"
    using assms(2) abs_diff_infinite(1,2)
    by (auto simp: list_all_iff dest!: set_zip_rightD) (metis, metis)
  from assms(3) obtain i where i: "i < length rets" and r: "rets ! i = PInf \<or> rets ! i = NInf"
    by (auto simp: in_set_conv_nth)
  have "rets ! i \<noteq> NaN" using r by auto
  then have "?d ! i = PInf" using i r assms(1) abs_diff_infinite(3) by simp
  moreover have "i < length ?d" using i assms(1) by simp
  ultimately have "PInf \<in> set ?d" by (metis nth_mem)
  with all have "fl_sum ?d = PInf" unfolding fl_sum_def by (rule foldl_fl_add_reaches_PInf)
  moreover have "?d \<noteq> []" using i assms(1) by auto
  ultimately show ?thesis by (simp add: fl_mean_def)
qed

lemma inv_err_PInf [simp]: "inv_err PInf = Fin 0"
  by (simp add: inv_err_def)

text \<open>
  An infinite return in the window (the price before it was 0), and no NaN: every error is
  infinite, every inverse is 0, their sum is 0, and every new weight is 0/0, NaN.
\<close>

lemma update_weights_inf:
  assumes "60 \<le> length (X_buf st)" and "60 \<le> length df"
    and "NaN \<notin> set (last_n 60 (pct_change df))"
    and "PInf \<in> set (last_n 60 (pct_change df)) \<or> NInf \<in> set (last_n 60 (pct_change df))"
  shows "update_weights df st = Inr (st\<lparr>weights := map (\<lambda>(k, m). (k, NaN)) (models st)\<rparr>)"
proof -
  let ?X = "last_n 60 (X_buf st)" and ?r = "last_n 60 (pct_change df)"
  have len: "length ?X = length ?r" using assms(1,2) by (simp add: length_last_n)
  have some: "\<not> list_all (\<lambda>r. r = NaN) ?r"
    using assms(4) by (auto simp: list_all_iff)
  have mae: "map (\<lambda>(k, m). (k, fl_mean (map2 (\<lambda>p r. fl_abs (fl_sub (Fin p) r)) (map m ?X) ?r)))
               (models st)
             = map (\<lambda>(k, m). (k, PInf)) (models st)"
    using mean_abs_diff_infinite [OF _ assms(3,4)] len by (intro map_cong) auto
  have total: "fl_sum (map (\<lambda>(k, e). inv_err e) (map (\<lambda>(k, m). (k, PInf)) ms)) = Fin 0"
    for ms :: "(string \<times> model) list"
  proof -
    have "map (\<lambda>(k, e). inv_err e) (map (\<lambda>(k, m). (k, PInf)) ms) = map Fin (map (\<lambda>km. 0) ms)"
      by (induction ms) auto
    then show ?thesis by (simp only: fl_sum_Fin) simp
  qed
  have w: "map (\<lambda>(k, e). (k, fl_div (inv_err e) (Fin 0))) (map (\<lambda>(k, m). (k, PInf)) ms)
           = map (\<lambda>(k, m). (k, NaN)) ms" for ms :: "(string \<times> model) list"
    by (induction ms) auto
  show ?thesis
    unfolding update_weights_explicit [OF assms(1,2) some refl] mae total w ..
qed

section \<open>The trailing errors\<close>

lemma last_n_zip:
  "length xs = length ys \<Longrightarrow> last_n n (zip xs ys) = zip (last_n n xs) (last_n n ys)"
  by (simp add: last_n_def drop_zip)

lemma reweight_mae_spec_zip:
  "reweight_mae_spec ms (zip X y)
   = map (\<lambda>(k, m). (k, fl_mean (map2 (\<lambda>p r. fl_abs (fl_sub (Fin p) r)) (map m X) y))) ms"
  by (simp add: reweight_mae_spec_def zip_map1 case_prod_unfold comp_def)

text \<open>
  When the last 60 returns of the frame are the last 60 stored labels, the errors of the
  code are the errors of the specification.
\<close>

lemma reweight_mae_aligned:
  assumes "60 \<le> length (X_buf st)" and "length (X_buf st) = length (y_buf st)"
    and "last_n 60 (pct_change df) = last_n 60 (y_buf st)"
  shows "mae_loop (models st) (last_n 60 (X_buf st)) (last_n 60 (pct_change df))
         = Inr (reweight_mae_spec (models st) (last_n 60 (zip (X_buf st) (y_buf st))))"
proof -
  have len: "length (last_n 60 (X_buf st)) = length (last_n 60 (y_buf st))"
    using assms(1,2) by (simp add: length_last_n)
  show ?thesis
    unfolding assms(3) mae_loop_equal_lengths [OF len] last_n_zip [OF assms(2)]
      reweight_mae_spec_zip ..
qed

section \<open>The stored labels in a run\<close>

lemma length_rets_from [simp]: "length (rets_from df bs) = length bs"
  by (induction bs arbitrary: df) simp_all

lemma rets_from_append: "rets_from df (xs @ ys) = rets_from df xs @ rets_from (df @ xs) ys"
  by (induction xs arbitrary: df) simp_all

lemma pct_change_append:
  "df \<noteq> [] \<Longrightarrow> pct_change (df @ bs) = pct_change df @ rets_from df bs"
proof (induction bs arbitrary: df)
  case Nil
  then show ?case by simp
next
  case (Cons b bs)
  have "pct_change ((df @ [b]) @ bs) = pct_change (df @ [b]) @ rets_from (df @ [b]) bs"
    by (rule Cons.IH) simp
  with Cons.prems show ?case by (simp add: pct_change_snoc)
qed

lemma pushed_append: "pushed df (xs @ ys) = pushed df xs @ pushed (df @ xs) ys"
  by (induction xs arbitrary: df) simp_all

lemma pushed_labels:
  "df \<noteq> [] \<Longrightarrow> NaN \<notin> set (rets_from df bs) \<Longrightarrow> map snd (pushed df bs) = rets_from df bs"
  by (induction bs arbitrary: df) auto

lemma last_n_append_short: "length ys = n \<Longrightarrow> last_n n (xs @ ys) = ys"
  by (simp add: last_n_def)

lemma last_n_append_long: "n \<le> length ys \<Longrightarrow> last_n n (xs @ ys) = last_n n ys"
  by (simp add: last_n_def)

lemma last_n_last_n:
  assumes "n \<le> m"
  shows "last_n n (last_n m xs) = last_n n xs"
proof -
  have "length xs - (length xs - m) - n + (length xs - m) = length xs - n"
    using assms by arith
  then show ?thesis by (simp add: last_n_def)
qed

text \<open>
  In a run from \<open>init\<close> over at least 60 bars, with room for 60 samples, in which none of
  the last 60 returns is NaN, the last 60 stored labels are those returns.
\<close>

lemma run_labels_aligned:
  assumes "init cfg = Inr st0" and "run cfg df0 st0 bs = Inr st" and "df0 \<noteq> []"
    and "60 \<le> window_len cfg" and "60 \<le> length bs"
    and "NaN \<notin> set (last_n 60 (pct_change (df0 @ bs)))"
  shows "last_n 60 (pct_change (df0 @ bs)) = last_n 60 (y_buf st)"
    and "60 \<le> length (X_buf st)" and "length (X_buf st) = length (y_buf st)"
proof -
  let ?pre = "take (length bs - 60) bs" and ?suf = "last_n 60 bs"
  let ?R = "rets_from (df0 @ ?pre) ?suf"
  have split: "bs = ?pre @ ?suf" by (simp add: last_n_def)
  have ls: "length ?suf = 60" using assms(5) by (rule length_last_n)
  have rf: "rets_from df0 bs = rets_from df0 ?pre @ ?R"
    using rets_from_append [of df0 ?pre ?suf] split by simp
  have "last_n 60 (pct_change (df0 @ bs)) = last_n 60 (rets_from df0 bs)"
    unfolding pct_change_append [OF assms(3)] using assms(5)
    by (intro last_n_append_long) simp
  also have "\<dots> = ?R" unfolding rf using ls by (intro last_n_append_short) simp
  finally have win: "last_n 60 (pct_change (df0 @ bs)) = ?R" .
  with assms(6) have nn: "NaN \<notin> set ?R" by simp
  have pre: "df0 @ ?pre \<noteq> []" using assms(3) by simp
  have lab: "map snd (pushed (df0 @ ?pre) ?suf) = ?R" using pre nn by (rule pushed_labels)
  then have "length (map snd (pushed (df0 @ ?pre) ?suf)) = 60" using ls by simp
  then have lp: "length (pushed (df0 @ ?pre) ?suf) = 60" by simp
  have p: "pushed df0 bs = pushed df0 ?pre @ pushed (df0 @ ?pre) ?suf"
    using pushed_append [of df0 ?pre ?suf] split by simp
  have w: "60 \<le> nat (window_len cfg)" using assms(4) by simp
  have y: "y_buf st = last_n (nat (window_len cfg)) (map snd (pushed df0 bs))"
    and x: "X_buf st = last_n (nat (window_len cfg)) (map fst (pushed df0 bs))"
    using run_buffers_last_pushed [OF assms(1,2)] by simp_all
  have "last_n 60 (y_buf st) = last_n 60 (map snd (pushed df0 bs))"
    unfolding y using w by (rule last_n_last_n)
  also have "\<dots> = map snd (pushed (df0 @ ?pre) ?suf)"
    unfolding p map_append using lp by (intro last_n_append_short) simp
  finally show "last_n 60 (pct_change (df0 @ bs)) = last_n 60 (y_buf st)"
    using win lab by simp
  have "60 \<le> length (pushed df0 bs)" unfolding p using lp by simp
  with w show "60 \<le> length (X_buf st)" unfolding x by (simp add: last_n_def)
  show "length (X_buf st) = length (y_buf st)" unfolding x y by (simp add: last_n_def)
qed

text \<open>
  So in such a run the errors that \<open>_update_weights\<close> computes on the last bar, for any
  models, are the ones of the specification.
\<close>

lemma run_reweight_mae_aligned:
  assumes "init cfg = Inr st0" and "run cfg df0 st0 bs = Inr st" and "df0 \<noteq> []"
    and "60 \<le> window_len cfg" and "60 \<le> length bs"
    and "NaN \<notin> set (last_n 60 (pct_change (df0 @ bs)))"
    and "X_buf s = X_buf st" and "y_buf s = y_buf st"
  shows "mae_loop (models s) (last_n 60 (X_buf s)) (last_n 60 (pct_change (df0 @ bs)))
         = Inr (reweight_mae_spec (models s) (last_n 60 (zip (X_buf s) (y_buf s))))"
proof -
  note a = run_labels_aligned [OF assms(1-6)]
  show ?thesis
    using a by (intro reweight_mae_aligned) (simp_all add: assms(7,8))
qed

lemma pushed_replicate_ex_bar:
  "df \<noteq> [] \<Longrightarrow> last df = ex_bar
     \<Longrightarrow> pushed df (replicate n ex_bar) = replicate n ([1], Fin 0)"
proof (induction n arbitrary: df)
  case 0
  then show ?case by simp
next
  case (Suc n)
  have "pushed (df @ [ex_bar]) (replicate n ex_bar) = replicate n ([1], Fin 0)"
    by (rule Suc.IH) simp_all
  with Suc.prems show ?case by (simp add: ex_bar_def [symmetric]) (simp add: ex_bar_def)
qed

lemma ex_nan_pushed:
  "pushed [ex_bar] (replicate 59 ex_bar @ [ex_bar_zero, ex_bar_zero])
   = replicate 59 ([1], Fin 0) @ [([1], Fin (- 1))]"
proof -
  have a: "pushed [ex_bar] (replicate 59 ex_bar) = replicate 59 ([1], Fin 0)"
    by (rule pushed_replicate_ex_bar) simp_all
  have b: "pushed ([ex_bar] @ replicate 59 ex_bar) [ex_bar_zero, ex_bar_zero]
           = [([1], Fin (- 1))]"
    by (simp add: ex_bar_def [symmetric]) (simp add: ex_bar_def)
  show ?thesis unfolding pushed_append a b ..
qed

text \<open>
  Whatever the configuration, the models and the trades, a run of the engine over the frame
  \<open>ex_df_nan\<close>, with room for 60 samples, ends with the buffers of \<open>ex_st_nan\<close>; they are
  the buffers at the reweight of the last bar, which buffers nothing.
\<close>

lemma ex_nan_buffers:
  assumes "init cfg = Inr st0"
    and "run cfg [ex_bar] st0 (replicate 59 ex_bar @ [ex_bar_zero, ex_bar_zero]) = Inr st"
    and "60 \<le> window_len cfg"
  shows "X_buf st = X_buf ex_st_nan" and "y_buf st = y_buf ex_st_nan"
    and "[ex_bar] @ replicate 59 ex_bar @ [ex_bar_zero, ex_bar_zero] = ex_df_nan"
proof -
  have w: "60 \<le> nat (window_len cfg)" using assms(3) by simp
  have l: "last_n (nat (window_len cfg)) xs = xs" if "length xs = 60" for xs :: "'a list"
    using w that by (simp add: last_n_def)
  have s: "replicate 59 x @ [x] = replicate 60 x" for x :: 'a
    by (simp add: replicate_append_same) (simp only: replicate_Suc [symmetric], simp)
  show "X_buf st = X_buf ex_st_nan"
    using run_buffers_last_pushed(1) [OF assms(1,2)]
    by (simp add: ex_nan_pushed ex_st_nan_def l s)
  show "y_buf st = y_buf ex_st_nan"
    using run_buffers_last_pushed(2) [OF assms(1,2)]
    by (simp add: ex_nan_pushed ex_st_nan_def l)
  have "(60::nat) = Suc 59" by simp
  then have "replicate 60 ex_bar = ex_bar # replicate 59 ex_bar"
    by (simp only: replicate_Suc)
  then show "[ex_bar] @ replicate 59 ex_bar @ [ex_bar_zero, ex_bar_zero] = ex_df_nan"
    by (simp add: ex_df_nan_def)
qed

text \<open>
  C2. \<open>_update_weights\<close> takes the realized values from the last 60 returns of the frame,
  not from \<open>y_buf\<close>. The two are the same, and the errors are those of the specification,
  in every run in which none of the last 60 returns is NaN (\<open>run_reweight_mae_aligned\<close>).
  They differ at the example, a run over a frame whose price is 0 on its last two bars:
  the last return is 0/0, the call on the last bar buffers nothing, and the reweight that
  is due in it compares the 60 buffered samples, whose labels are the returns of the bars
  2 to 61, with the returns of the bars 3 to 62. The errors of the code are all NaN, while
  the errors against the labels stored with those 60 samples are all 1/60.
\<close>

theorem reweight_mae_nan_divergence:
  "init ex_cfg_nan = Inr ex_init
   \<and> run ex_cfg_nan [ex_bar] ex_init (replicate 59 ex_bar @ [ex_bar_zero]) = Inr ex_st_nan
   \<and> [ex_bar] @ replicate 59 ex_bar @ [ex_bar_zero, ex_bar_zero] = ex_df_nan
   \<and> buffer_prev_bar ex_cfg_nan ex_df_nan ex_st_nan = ex_st_nan
   \<and> last_n 60 (pct_change ex_df_nan) = replicate 58 (Fin 0) @ [Fin (- 1), NaN]
   \<and> last_n 60 (y_buf ex_st_nan) = replicate 59 (Fin 0) @ [Fin (- 1)]
   \<and> mae_loop (models ex_st_nan) (last_n 60 (X_buf ex_st_nan))
       (last_n 60 (pct_change ex_df_nan))
     = Inr [(''xgb'', NaN), (''lgb'', NaN), (''cat'', NaN), (''rf'', NaN)]
   \<and> reweight_mae_spec (models ex_st_nan) (last_n 60 (zip (X_buf ex_st_nan) (y_buf ex_st_nan)))
     = [(''xgb'', Fin (1 / 60)), (''lgb'', Fin (1 / 60)),
        (''cat'', Fin (1 / 60)), (''rf'', Fin (1 / 60))]"
proof -
  have y: "last_n 60 (y_buf ex_st_nan) = replicate 59 (Fin 0) @ [Fin (- 1)]"
    by (simp add: ex_st_nan_def last_n_def)
  have len: "length (last_n 60 (X_buf ex_st_nan))
             = length (last_n 60 (pct_change ex_df_nan))"
    by (simp add: ex_st_nan_def ex_df_nan_facts length_last_n)
  have a: "mae_loop (models ex_st_nan) (last_n 60 (X_buf ex_st_nan))
             (last_n 60 (pct_change ex_df_nan))
           = Inr [(''xgb'', NaN), (''lgb'', NaN), (''cat'', NaN), (''rf'', NaN)]"
    unfolding mae_loop_NaN [OF len ex_nan_window(1)]
    by (simp add: ex_st_nan_def fit_models_on_gpu_def)
  have l: "length (X_buf ex_st_nan) = length (y_buf ex_st_nan)" by (simp add: ex_st_nan_def)
  have x: "last_n 60 (X_buf ex_st_nan) = replicate 60 [1]"
    by (simp add: ex_st_nan_def last_n_replicate)
  have e: "map2 (\<lambda>p r. fl_abs (fl_sub (Fin p) r)) (replicate 60 0)
             (replicate 59 (Fin 0) @ [Fin (- 1)])
           = map Fin (replicate 59 0 @ [1])"
  proof -
    have "replicate 60 (0::real) = replicate 59 0 @ [0]"
      by (simp add: replicate_append_same) (simp only: replicate_Suc [symmetric], simp)
    then show ?thesis by (simp add: zip_replicate)
  qed
  have f: "fl_mean (map Fin (replicate 59 0 @ [1])) = Fin (1 / 60)"
    using fl_mean_Fin [of "replicate 59 0 @ [1]"] by (simp add: sum_list_replicate)
  have b: "reweight_mae_spec (models ex_st_nan)
             (last_n 60 (zip (X_buf ex_st_nan) (y_buf ex_st_nan)))
           = [(''xgb'', Fin (1 / 60)), (''lgb'', Fin (1 / 60)),
              (''cat'', Fin (1 / 60)), (''rf'', Fin (1 / 60))]"
    unfolding last_n_zip [OF l] reweight_mae_spec_zip x y
    by (simp add: ex_st_nan_def fit_models_on_gpu_def ex_fit_def e f del: map_append)
  have d: "[ex_bar] @ replicate 59 ex_bar @ [ex_bar_zero, ex_bar_zero] = ex_df_nan"
  proof -
    have "(60::nat) = Suc 59" by simp
    then have "replicate 60 ex_bar = ex_bar # replicate 59 ex_bar"
      by (simp only: replicate_Suc)
    then show ?thesis by (simp add: ex_df_nan_def)
  qed
  from ex_nan_run(1,2) d ex_nan_buffer ex_df_nan_facts(5) y a b show ?thesis by blast
qed

section \<open>The weights after a window with an undefined return\<close>

text \<open>
  C3. The reweight completes on every window that is not all NaN, and it stores NaN for
  every weight as soon as one return of the window is NaN (\<open>update_weights_nan\<close>) or
  infinite (\<open>update_weights_inf\<close>). At the example, a run in which the last return of the
  window is 0/0, the last call ends with NaN for every weight: no weight is a non-negative
  number and their sum is NaN, not 1; the next prediction is NaN, which passes neither
  threshold.
\<close>

theorem reweight_nan_weights:
  "init ex_cfg_nan = Inr ex_init
   \<and> run ex_cfg_nan [ex_bar] ex_init (replicate 59 ex_bar @ [ex_bar_zero, ex_bar_zero])
       = Inr ex_after_nan
   \<and> next_bar ex_cfg_nan ex_df_nan ex_st_nan = Inr ex_after_nan
   \<and> weights ex_after_nan = [(''xgb'', NaN), (''lgb'', NaN), (''cat'', NaN), (''rf'', NaN)]
   \<and> fl_sum (map snd (weights ex_after_nan)) = NaN
   \<and> pred_meta (ex_df_nan @ [ex_bar]) ex_after_nan = Inr NaN
   \<and> \<not> fl_gt NaN (trade_threshold ex_cfg_nan)
   \<and> \<not> fl_lt NaN (- trade_threshold ex_cfg_nan)"
proof -
  have w: "weights ex_after_nan = [(''xgb'', NaN), (''lgb'', NaN), (''cat'', NaN), (''rf'', NaN)]"
    by (simp add: ex_after_nan_def)
  have s: "fl_sum (map snd (weights ex_after_nan)) = NaN"
    by (simp add: w fl_sum_def)
  have p: "pred_meta (ex_df_nan @ [ex_bar]) ex_after_nan = Inr NaN"
    by (simp add: pred_meta_def ex_after_nan_def ex_st_nan_def fit_models_on_gpu_def
          ex_fit_def Let_def)
  from ex_nan_run(1,3) ex_nan_next w s p show ?thesis by simp
qed

end
